theory Spec2Isabelle
  imports Main
begin

section \<open>Game codes storefront (src/backend/main.py)\<close>

subsection \<open>Documents (src/backend/schemas.py)\<close>

text \<open>
  Object ids and timestamps are opaque to the code; ids are strings (the code passes
  \<^verbatim>\<open>str(_id)\<close> around), timestamps are natural numbers (seconds). Fields that occur in
  several pydantic models carry a short prefix, since record fields share one name space.
  \<^verbatim>\<open>CartItem.quantity\<close> is validated to \<open>1..10\<close>; it is a natural number here.
\<close>

type_synonym oid = string
type_synonym timestamp = nat

record product =
  title :: string
  game :: string
  reward_type :: string
  description :: string
  images :: "string list"
  price_cents :: int
  p_currency :: string
  active :: bool
  tags :: "string list"
  p_created_at :: "timestamp option"
  p_updated_at :: "timestamp option"

record codekey =
  ck_product_id :: string
  code :: string
  assigned :: bool
  ck_order_id :: "string option"
  ck_created_at :: "timestamp option"
  ck_updated_at :: "timestamp option"

record cart_item =
  product_id :: string
  quantity :: nat

record order_create =
  oc_items :: "cart_item list"
  oc_email :: string
  oc_name :: "string option"

record order =
  user_id :: "string option"
  email :: string
  name :: "string option"
  items :: "cart_item list"
  subtotal_cents :: int
  total_cents :: int
  currency :: string
  payment_intent_id :: "string option"
  status :: string
  delivered_codes :: "string list"
  created_at :: "timestamp option"
  updated_at :: "timestamp option"

record user =
  u_email :: string
  u_name :: "string option"
  password_hash :: string
  role :: string
  u_created_at :: "timestamp option"
  u_updated_at :: "timestamp option"

record user_register =
  ur_email :: string
  ur_password :: string
  ur_name :: "string option"


datatype http_exception = HTTPException (status_code: nat) (detail: string)

subsection \<open>The document store\<close>

text \<open>
  Every effect of a request that leaves the process is recorded, in the order it
  happens: a document created in a collection, a payment-intent request sent.
\<close>

datatype event = Created string oid | PaymentIntentPost int string

record store =
  products :: "(oid \<times> product) list"
  codekeys :: "(oid \<times> codekey) list"
  orders :: "(oid \<times> order) list"
  users :: "(oid \<times> user) list"
  next_oid :: nat
  trace :: "event list"

text \<open>
  Modelled from the spec: the module \<^verbatim>\<open>database\<close> (\<^verbatim>\<open>create_document\<close>,
  \<^verbatim>\<open>get_documents\<close>) is not among the sources. The spec gives
  \<^verbatim>\<open>find(collection, filter, limit) -> [doc]\<close>, reading up to \<open>limit\<close> matching
  documents in store-iteration order, and \<^verbatim>\<open>create(collection, doc) -> id\<close>. A collection
  is the list of its documents in iteration order, each with its id; a filter is a
  predicate; a new document goes to the end under an id the store makes up.
\<close>

definition get_documents :: "(oid \<times> 'a) list \<Rightarrow> (oid \<times> 'a \<Rightarrow> bool) \<Rightarrow> nat \<Rightarrow> (oid \<times> 'a) list" where
  "get_documents collection flt limit = take limit (filter flt collection)"

fun digits_of :: "nat \<Rightarrow> string" where
  "digits_of n =
     (if n < 10 then [char_of (48 + n)] else digits_of (n div 10) @ [char_of (48 + n mod 10)])"

definition oid_of :: "nat \<Rightarrow> oid" where
  "oid_of n = ''oid'' @ digits_of n"

definition create_order :: "store \<Rightarrow> order \<Rightarrow> oid \<times> store" where
  "create_order s doc =
     (let i = oid_of (next_oid s)
      in (i, s\<lparr>orders := orders s @ [(i, doc)], next_oid := Suc (next_oid s),
                trace := trace s @ [Created ''order'' i]\<rparr>))"

definition create_user :: "store \<Rightarrow> user \<Rightarrow> oid \<times> store" where
  "create_user s doc =
     (let i = oid_of (next_oid s)
      in (i, s\<lparr>users := users s @ [(i, doc)], next_oid := Suc (next_oid s),
                trace := trace s @ [Created ''user'' i]\<rparr>))"

definition create_product_doc :: "store \<Rightarrow> product \<Rightarrow> oid \<times> store" where
  "create_product_doc s doc =
     (let i = oid_of (next_oid s)
      in (i, s\<lparr>products := products s @ [(i, doc)], next_oid := Suc (next_oid s),
                trace := trace s @ [Created ''product'' i]\<rparr>))"

definition create_codekey :: "store \<Rightarrow> codekey \<Rightarrow> oid \<times> store" where
  "create_codekey s doc =
     (let i = oid_of (next_oid s)
      in (i, s\<lparr>codekeys := codekeys s @ [(i, doc)], next_oid := Suc (next_oid s),
                trace := trace s @ [Created ''codekey'' i]\<rparr>))"

subsection \<open>Checkout confirmation\<close>

record checkout_confirm_request =
  req_order_id :: string
  provider :: string

record checkout_confirm_response =
  resp_order_id :: string
  codes :: "string list"

text \<open>\<^verbatim>\<open>find_available_codes\<close>: the filter is \<^verbatim>\<open>{"product_id": product_id, "assigned": False}\<close>.\<close>

definition find_available_codes :: "store \<Rightarrow> string \<Rightarrow> nat \<Rightarrow> (oid \<times> codekey) list" where
  "find_available_codes s pid qty =
     get_documents (codekeys s) (\<lambda>(_, d). ck_product_id d = pid \<and> \<not> assigned d) qty"

text \<open>
  The loop over the order's items of \<^verbatim>\<open>checkout_confirm\<close>, with the list
  \<^verbatim>\<open>allocated_codes\<close> as accumulator. The inner loop reads \<^verbatim>\<open>available[i]\<close> for
  \<open>i < qty\<close>, which is in range after the stock check.
\<close>

fun checkout_confirm_loop :: "store \<Rightarrow> cart_item list \<Rightarrow> string list \<Rightarrow> http_exception + string list" where
  "checkout_confirm_loop s [] allocated_codes = Inr allocated_codes"
| "checkout_confirm_loop s (item # rest) allocated_codes =
     (let qty = quantity item;
          available = find_available_codes s (product_id item) qty
      in if length available < qty
         then Inl (HTTPException 409 ''Insufficient stock for a product'')
         else checkout_confirm_loop s rest
                (allocated_codes @ map (\<lambda>i. code (snd (available ! i))) [0..<qty]))"

text \<open>
  \<^verbatim>\<open>checkout_confirm\<close> returns its response or the exception it raises, and the store
  as the call leaves it. The body calls \<^verbatim>\<open>get_documents\<close> only. Order documents come
  from \<^verbatim>\<open>Order.dict()\<close>, so the defaults of \<^verbatim>\<open>order.get("items", [])\<close> and
  \<^verbatim>\<open>item.get("quantity", 1)\<close> are never used.
\<close>

definition checkout_confirm :: "store \<Rightarrow> checkout_confirm_request \<Rightarrow> (http_exception + checkout_confirm_response) \<times> store" where
  "checkout_confirm s payload =
     (case get_documents (orders s) (\<lambda>(i, _). i = req_order_id payload) 1 of
        [] \<Rightarrow> (Inl (HTTPException 404 ''Order not found''), s)
      | ord # _ \<Rightarrow>
          (case checkout_confirm_loop s (items (snd ord)) [] of
             Inl e \<Rightarrow> (Inl e, s)
           | Inr allocated_codes \<Rightarrow>
               (Inr \<lparr>resp_order_id = req_order_id payload, codes = allocated_codes\<rparr>, s)))"

text \<open>Stock as the claims speak of it: the unassigned codes of a product, in store order.\<close>

definition unassigned_codes :: "store \<Rightarrow> string \<Rightarrow> (oid \<times> codekey) list" where
  "unassigned_codes s pid =
     filter (\<lambda>(_, d). ck_product_id d = pid \<and> \<not> assigned d) (codekeys s)"

definition unassigned_all :: "store \<Rightarrow> (oid \<times> codekey) list" where
  "unassigned_all s = filter (\<lambda>(_, d). \<not> assigned d) (codekeys s)"

definition sufficient_stock :: "store \<Rightarrow> cart_item \<Rightarrow> bool" where
  "sufficient_stock s item = (quantity item \<le> length (unassigned_codes s (product_id item)))"

definition selected_codes :: "store \<Rightarrow> cart_item \<Rightarrow> string list" where
  "selected_codes s item =
     map (\<lambda>d. code (snd d)) (take (quantity item) (unassigned_codes s (product_id item)))"

subsection \<open>Checkout initiation\<close>

record checkout_init_response =
  client_secret :: "string option"
  init_order_id :: string
  init_total_cents :: int

text \<open>
  The payment provider is outside the program. \<^verbatim>\<open>requests.post\<close> either raises or gives
  a response with a status code, of which the code reads \<^verbatim>\<open>r.ok\<close> and
  \<^verbatim>\<open>r.json().get("client_secret")\<close>; decoding the body can raise too. \<^verbatim>\<open>Response.ok\<close>
  is documented as true unless \<^verbatim>\<open>raise_for_status\<close> raises, which it does for a status
  from 400 to 599.
\<close>

datatype json_outcome = JsonRaised | JsonObject "string option"

datatype post_outcome = PostRaised | PostResponse nat json_outcome

definition response_ok :: "nat \<Rightarrow> bool" where
  "response_ok st = (\<not> (400 \<le> st \<and> st < 600))"

text \<open>
  The loop of \<^verbatim>\<open>checkout_init\<close> over the cart, with \<^verbatim>\<open>subtotal\<close> and \<^verbatim>\<open>currency\<close> as
  accumulators. (\<^verbatim>\<open>product_cache\<close> is written and never read.) Product documents come
  from \<^verbatim>\<open>Product.dict()\<close> and always carry a currency.
\<close>

fun checkout_init_loop :: "store \<Rightarrow> cart_item list \<Rightarrow> int \<Rightarrow> string \<Rightarrow> http_exception + int \<times> string" where
  "checkout_init_loop s [] subtotal cur = Inr (subtotal, cur)"
| "checkout_init_loop s (item # rest) subtotal cur =
     (case get_documents (products s) (\<lambda>(i, _). i = product_id item) 1 of
        [] \<Rightarrow> Inl (HTTPException 400 (''Invalid product '' @ product_id item))
      | p # _ \<Rightarrow>
          checkout_init_loop s rest
            (subtotal + price_cents (snd p) * int (quantity item)) (p_currency (snd p)))"

text \<open>
  The \<^verbatim>\<open>try\<close> block of \<^verbatim>\<open>checkout_init\<close>: any exception leaves \<^verbatim>\<open>client_secret = None\<close>.
  The request is an effect, recorded in the trace before its outcome is looked at.
\<close>

definition payment_intent :: "(int \<Rightarrow> string \<Rightarrow> post_outcome) \<Rightarrow> store \<Rightarrow> int \<Rightarrow> string \<Rightarrow> string option \<times> store" where
  "payment_intent requests_post s amount cur =
     (let s' = s\<lparr>trace := trace s @ [PaymentIntentPost amount cur]\<rparr>
      in case requests_post amount cur of
           PostRaised \<Rightarrow> (None, s')
         | PostResponse st body \<Rightarrow>
             if response_ok st
             then (case body of JsonRaised \<Rightarrow> (None, s') | JsonObject v \<Rightarrow> (v, s'))
             else (None, s'))"

definition checkout_init :: "string \<Rightarrow> (int \<Rightarrow> string \<Rightarrow> post_outcome) \<Rightarrow> timestamp \<Rightarrow> store \<Rightarrow> order_create \<Rightarrow> (http_exception + checkout_init_response) \<times> store" where
  "checkout_init stripe_api_key requests_post now s payload =
     (case checkout_init_loop s (oc_items payload) 0 ''usd'' of
        Inl e \<Rightarrow> (Inl e, s)
      | Inr (subtotal, cur) \<Rightarrow>
          (let total' = subtotal;
               ord = \<lparr>user_id = None, email = oc_email payload, name = oc_name payload,
                      items = oc_items payload, subtotal_cents = subtotal, total_cents = total',
                      currency = cur, payment_intent_id = None, status = ''pending'',
                      delivered_codes = [], created_at = Some now, updated_at = Some now\<rparr>;
               (oid, s1) = create_order s ord;
               (secret, s2) = (if stripe_api_key \<noteq> [] then payment_intent requests_post s1 total' cur
                               else (None, s1))
           in (Inr \<lparr>client_secret = secret, init_order_id = oid, init_total_cents = total'\<rparr>, s2)))"

text \<open>The sum and the currency the spec gives for a cart, read off the product collection.\<close>

definition line_total :: "store \<Rightarrow> cart_item \<Rightarrow> int" where
  "line_total s item =
     (case map_of (products s) (product_id item) of
        None \<Rightarrow> 0
      | Some p \<Rightarrow> price_cents p * int (quantity item))"

definition cart_total :: "store \<Rightarrow> cart_item list \<Rightarrow> int" where
  "cart_total s its = sum_list (map (line_total s) its)"

definition cart_currency :: "store \<Rightarrow> cart_item list \<Rightarrow> string" where
  "cart_currency s its =
     (if its = [] then ''usd''
      else case map_of (products s) (product_id (last its)) of
             None \<Rightarrow> ''usd''
           | Some p \<Rightarrow> p_currency p)"

definition product_exists :: "store \<Rightarrow> cart_item \<Rightarrow> bool" where
  "product_exists s item = (map_of (products s) (product_id item) \<noteq> None)"

text \<open>
  A payment-intent request that fails as the code sees it (the request raises, the status
  is an error status, or decoding the body raises), and a response outside the 2xx range,
  which is what the spec speaks of.
\<close>

definition payment_failed :: "post_outcome \<Rightarrow> bool" where
  "payment_failed r =
     (case r of
        PostRaised \<Rightarrow> True
      | PostResponse st body \<Rightarrow> (400 \<le> st \<and> st < 600) \<or> body = JsonRaised)"

definition non_2xx :: "post_outcome \<Rightarrow> bool" where
  "non_2xx r = (case r of PostRaised \<Rightarrow> False | PostResponse st _ \<Rightarrow> \<not> (200 \<le> st \<and> st < 300))"

subsection \<open>Authentication\<close>

text \<open>
  The JWT library and the password hasher are outside the program: \<open>jwt_encode\<close> signs a
  payload, \<open>jwt_decode\<close> gives the payload of a token or \<open>None\<close> where \<^verbatim>\<open>jwt.decode\<close>
  raises \<^verbatim>\<open>JWTError\<close> (bad signature, expired), \<open>pwd_hash\<close> and \<open>pwd_verify\<close> are
  \<^verbatim>\<open>pwd_context.hash\<close> and \<^verbatim>\<open>pwd_context.verify\<close>. A payload is a dictionary with the
  keys \<^verbatim>\<open>sub\<close>, \<^verbatim>\<open>role\<close> and \<^verbatim>\<open>exp\<close>, each present or absent.
\<close>

record token_claims =
  sub :: "string option"
  role_claim :: "string option"
  exp :: "timestamp option"

record token_response =
  access_token :: string
  token_type :: string

record current_user =
  cu_email :: string
  cu_role :: string
  cu_id :: string

text \<open>\<^verbatim>\<open>expires_delta or timedelta(hours=12)\<close>: a zero delta is falsy and gives twelve hours too.\<close>

definition create_access_token :: "(token_claims \<Rightarrow> string) \<Rightarrow> timestamp \<Rightarrow> token_claims \<Rightarrow> nat option \<Rightarrow> string" where
  "create_access_token jwt_encode now data expires_delta =
     (let expire = now + (case expires_delta of
                            None \<Rightarrow> 12 * 3600
                          | Some d \<Rightarrow> if d = 0 then 12 * 3600 else d)
      in jwt_encode (data\<lparr>exp := Some expire\<rparr>))"

definition get_user_by_email :: "store \<Rightarrow> string \<Rightarrow> (oid \<times> user) option" where
  "get_user_by_email s e =
     (case get_documents (users s) (\<lambda>(_, u). u_email u = e) 1 of
        [] \<Rightarrow> None
      | r # _ \<Rightarrow> Some r)"

definition credentials_exception :: http_exception where
  "credentials_exception = HTTPException 401 ''Could not validate credentials''"

definition get_current_user :: "(string \<Rightarrow> token_claims option) \<Rightarrow> store \<Rightarrow> string \<Rightarrow> http_exception + current_user" where
  "get_current_user jwt_decode s token =
     (case jwt_decode token of
        None \<Rightarrow> Inl credentials_exception
      | Some payload \<Rightarrow>
          (case sub payload of
             None \<Rightarrow> Inl credentials_exception
           | Some e \<Rightarrow>
               (case get_user_by_email s e of
                  None \<Rightarrow> Inl credentials_exception
                | Some (i, u) \<Rightarrow>
                    Inr \<lparr>cu_email = e,
                         cu_role = (case role_claim payload of None \<Rightarrow> ''user'' | Some r \<Rightarrow> r),
                         cu_id = i\<rparr>)))"

definition register :: "(string \<Rightarrow> string) \<Rightarrow> (token_claims \<Rightarrow> string) \<Rightarrow> timestamp \<Rightarrow> store \<Rightarrow> user_register \<Rightarrow> (http_exception + token_response) \<times> store" where
  "register pwd_hash jwt_encode now s payload =
     (case get_user_by_email s (ur_email payload) of
        Some _ \<Rightarrow> (Inl (HTTPException 400 ''Email already registered''), s)
      | None \<Rightarrow>
          (let u = \<lparr>u_email = ur_email payload, u_name = ur_name payload,
                    password_hash = pwd_hash (ur_password payload), role = ''user'',
                    u_created_at = Some now, u_updated_at = Some now\<rparr>;
               (inserted, s') = create_user s u;
               token = create_access_token jwt_encode now
                         \<lparr>sub = Some (ur_email payload), role_claim = Some ''user'', exp = None\<rparr> None
           in (Inr \<lparr>access_token = token, token_type = ''bearer''\<rparr>, s')))"


text \<open>
  \<^verbatim>\<open>create_product\<close> depends on \<^verbatim>\<open>get_current_user\<close>: an exception of the dependency is
  the response, and the body does not run.
\<close>

definition create_product :: "(string \<Rightarrow> token_claims option) \<Rightarrow> timestamp \<Rightarrow> store \<Rightarrow> product \<Rightarrow> string \<Rightarrow> (http_exception + string) \<times> store" where
  "create_product jwt_decode now s product token =
     (case get_current_user jwt_decode s token of
        Inl e \<Rightarrow> (Inl e, s)
      | Inr current \<Rightarrow>
          if cu_role current \<noteq> ''admin'' then (Inl (HTTPException 403 ''Admin only''), s)
          else (let (res, s') = create_product_doc s
                                  (product\<lparr>p_created_at := Some now, p_updated_at := Some now\<rparr>)
                in (Inr res, s')))"

record admin_add_codes =
  ac_product_id :: string
  ac_codes :: "string list"

text \<open>The loop of \<^verbatim>\<open>add_codes\<close>: one code key per code string, as given, duplicates included.\<close>

fun add_codes_loop :: "timestamp \<Rightarrow> string \<Rightarrow> store \<Rightarrow> string list \<Rightarrow> string list \<Rightarrow> string list \<times> store" where
  "add_codes_loop now pid s [] inserted = (inserted, s)"
| "add_codes_loop now pid s (c # cs) inserted =
     (let ck = \<lparr>ck_product_id = pid, code = c, assigned = False, ck_order_id = None,
                ck_created_at = Some now, ck_updated_at = Some now\<rparr>;
          (res, s') = create_codekey s ck
      in add_codes_loop now pid s' cs (inserted @ [res]))"

definition add_codes :: "(string \<Rightarrow> token_claims option) \<Rightarrow> timestamp \<Rightarrow> store \<Rightarrow> admin_add_codes \<Rightarrow> string \<Rightarrow> (http_exception + string list) \<times> store" where
  "add_codes jwt_decode now s payload token =
     (case get_current_user jwt_decode s token of
        Inl e \<Rightarrow> (Inl e, s)
      | Inr current \<Rightarrow>
          if cu_role current \<noteq> ''admin'' then (Inl (HTTPException 403 ''Admin only''), s)
          else (let (inserted, s') = add_codes_loop now (ac_product_id payload) s (ac_codes payload) []
                in (Inr inserted, s')))"

text \<open>A store whose user documents have their stored role rewritten by \<open>f\<close>.\<close>

definition with_roles :: "(oid \<times> user \<Rightarrow> string) \<Rightarrow> store \<Rightarrow> store" where
  "with_roles f s = s\<lparr>users := map (\<lambda>(i, u). (i, u\<lparr>role := f (i, u)\<rparr>)) (users s)\<rparr>"

section \<open>MMORPG helper (src/main.py)\<close>

subsection \<open>Python strings\<close>

text \<open>
  A character is a code point below 256 (Latin-1); text with other code points is outside
  the model. The built-ins are those of CPython 3.11.
  \<^item> \<^verbatim>\<open>str.strip()\<close> removes the white space of \<^verbatim>\<open>str.isspace\<close> from both ends: the code
    points 9 to 13, 28 to 31, 32, 133 and 160.
  \<^item> \<^verbatim>\<open>str.split(sep)\<close> with a one-character separator cuts at every separator.
  \<^item> \<^verbatim>\<open>int(str)\<close> skips, at both ends, the code points 9 to 13, 32, 133 and 160 (not 28 to
    31), then reads one optional sign and decimal digits with single underscores between
    digits; it raises \<^verbatim>\<open>ValueError\<close> (\<open>None\<close>) on anything else, and on more digits than
    \<^verbatim>\<open>sys.get_int_max_str_digits()\<close>, 4300 by default.
\<close>

definition is_space :: "char \<Rightarrow> bool" where
  "is_space c = (of_char c \<in> {9, 10, 11, 12, 13, 28, 29, 30, 31, 32, 133, 160 :: nat})"

definition strip_with :: "(char \<Rightarrow> bool) \<Rightarrow> string \<Rightarrow> string" where
  "strip_with sp s = rev (dropWhile sp (rev (dropWhile sp s)))"

definition py_strip :: "string \<Rightarrow> string" where
  "py_strip s = strip_with is_space s"

fun py_split :: "char \<Rightarrow> string \<Rightarrow> string list" where
  "py_split sep [] = [[]]"
| "py_split sep (c # cs) =
     (if c = sep then [] # py_split sep cs
      else (case py_split sep cs of
              [] \<Rightarrow> [[c]]
            | w # ws \<Rightarrow> (c # w) # ws))"

definition is_int_space :: "char \<Rightarrow> bool" where
  "is_int_space c = (of_char c \<in> {9, 10, 11, 12, 13, 32, 133, 160 :: nat})"

definition is_digit :: "char \<Rightarrow> bool" where
  "is_digit c = (48 \<le> (of_char c :: nat) \<and> (of_char c :: nat) \<le> 57)"

definition int_max_str_digits :: nat where
  "int_max_str_digits = 4300"

fun py_digits :: "string \<Rightarrow> bool \<Rightarrow> nat \<Rightarrow> nat option" where
  "py_digits [] after_digit acc = (if after_digit then Some acc else None)"
| "py_digits (c # cs) after_digit acc =
     (if is_digit c then py_digits cs True (10 * acc + (of_char c - 48))
      else if c = CHR ''_'' \<and> after_digit then py_digits cs False acc
      else None)"

definition py_int :: "string \<Rightarrow> int option" where
  "py_int s =
     (case strip_with is_int_space s of
        [] \<Rightarrow> None
      | c # cs \<Rightarrow>
          if int_max_str_digits < length (filter is_digit (c # cs)) then None
          else if c = CHR ''-'' then map_option (\<lambda>n. - int n) (py_digits cs False 0)
          else if c = CHR ''+'' then map_option int (py_digits cs False 0)
          else map_option int (py_digits (c # cs) False 0))"

text \<open>
  Decimal notation, and lines joined by a separator: what a well-formed hiscore feed is
  made of.
\<close>

definition decimal :: "int \<Rightarrow> string" where
  "decimal i = (if i < 0 then CHR ''-'' # digits_of (nat (- i)) else digits_of (nat i))"

fun join :: "char \<Rightarrow> string list \<Rightarrow> string" where
  "join sep [] = []"
| "join sep [l] = l"
| "join sep (l # ls) = l @ sep # join sep ls"

subsection \<open>Search log\<close>

record search_log =
  sl_game :: string
  query :: "(string \<times> string) list"
  result_ok :: bool
  sl_note :: "string option"

text \<open>
  Modelled from the spec: this service's \<^verbatim>\<open>database\<close> module is not among the sources
  either. \<^verbatim>\<open>create(collection, doc)\<close> appends the document; the code guards every call
  with \<^verbatim>\<open>try/except\<close>, so the call can raise, which it does when the store is not
  available (\<open>None\<close>).
\<close>

record proxy_store =
  searchlog :: "search_log list"
  available :: bool

definition create_searchlog :: "proxy_store \<Rightarrow> search_log \<Rightarrow> proxy_store option" where
  "create_searchlog s doc =
     (if available s then Some (s\<lparr>searchlog := searchlog s @ [doc]\<rparr>) else None)"

text \<open>\<^verbatim>\<open>try: create_document("searchlog", ...) except Exception: pass\<close>\<close>

definition log_search :: "proxy_store \<Rightarrow> search_log \<Rightarrow> proxy_store" where
  "log_search s doc = (case create_searchlog s doc of None \<Rightarrow> s | Some s' \<Rightarrow> s')"

subsection \<open>OSRS hiscores\<close>

record skill_entry =
  rank :: int
  level :: int
  xp :: int

record osrs_response =
  osrs_game :: string
  username :: string
  skills :: "(string \<times> skill_entry) list"

definition skill_names :: "string list" where
  "skill_names =
     [''Overall'', ''Attack'', ''Defence'', ''Strength'', ''Hitpoints'', ''Ranged'', ''Prayer'',
      ''Magic'', ''Cooking'', ''Woodcutting'', ''Fletching'', ''Fishing'', ''Firemaking'',
      ''Crafting'', ''Smithing'', ''Mining'', ''Herblore'', ''Agility'', ''Thieving'', ''Slayer'',
      ''Farming'', ''Runecraft'', ''Hunter'', ''Construction'']"

definition default_entry :: skill_entry where
  "default_entry = \<lparr>rank = - 1, level = 1, xp = 0\<rparr>"

text \<open>
  The body of the inner \<^verbatim>\<open>try\<close>, after \<^verbatim>\<open>lines[i]\<close> is read: \<open>None\<close> where it raises
  (the line does not split into three parts, or a part is not an integer).
\<close>

definition parse_line :: "string \<Rightarrow> skill_entry option" where
  "parse_line line =
     (case py_split CHR '','' line of
        [r, l, x] \<Rightarrow>
          (case py_int r of
             None \<Rightarrow> None
           | Some rv \<Rightarrow>
               (case py_int l of
                  None \<Rightarrow> None
                | Some lv \<Rightarrow>
                    (case py_int x of
                       None \<Rightarrow> None
                     | Some xv \<Rightarrow> Some \<lparr>rank = rv, level = lv, xp = xv\<rparr>)))
      | _ \<Rightarrow> None)"

text \<open>One round of the loop: \<^verbatim>\<open>lines[i]\<close> raises \<^verbatim>\<open>IndexError\<close> past the end of the feed.\<close>

definition parse_skill :: "string list \<Rightarrow> nat \<Rightarrow> skill_entry" where
  "parse_skill lines i =
     (if i < length lines
      then (case parse_line (lines ! i) of None \<Rightarrow> default_entry | Some e \<Rightarrow> e)
      else default_entry)"

text \<open>
  \<^verbatim>\<open>for i, skill in enumerate(skills)\<close>; the dictionary \<^verbatim>\<open>parsed\<close> is the list of its
  entries in insertion order (the skill names are distinct).
\<close>

fun parse_skills_from :: "string list \<Rightarrow> nat \<Rightarrow> string list \<Rightarrow> (string \<times> skill_entry) list" where
  "parse_skills_from lines i [] = []"
| "parse_skills_from lines i (skill # rest) =
     (skill, parse_skill lines i) # parse_skills_from lines (Suc i) rest"

definition parse_skills :: "string list \<Rightarrow> (string \<times> skill_entry) list" where
  "parse_skills lines = parse_skills_from lines 0 skill_names"

text \<open>
  The hiscore server is outside the program: \<^verbatim>\<open>requests.get\<close> raises (with the text of
  the exception), or gives a response with its status code, its text, and the text of
  the \<^verbatim>\<open>HTTPError\<close> that \<^verbatim>\<open>raise_for_status\<close> raises for a status from 400 to 599.
  \<open>quote\<close> is \<^verbatim>\<open>requests.utils.quote\<close>.
\<close>

datatype get_outcome = GetRaised string | GetResponse nat string string

definition osrs_url :: string where
  "osrs_url = ''https://secure.runescape.com/m=hiscore_oldschool/index_lite.ws?player=''"

definition get_osrs_stats :: "(string \<Rightarrow> string) \<Rightarrow> (string \<Rightarrow> get_outcome) \<Rightarrow> proxy_store \<Rightarrow> string \<Rightarrow> (http_exception + osrs_response) \<times> proxy_store" where
  "get_osrs_stats quote requests_get s payload_username =
     (let uname = py_strip payload_username
      in if uname = [] then (Inl (HTTPException 400 ''Username required''), s)
         else
           (case requests_get (osrs_url @ quote uname) of
              GetRaised e \<Rightarrow>
                (Inl (HTTPException 500 ''Failed to fetch OSRS stats''),
                 log_search s \<lparr>sl_game = ''osrs'', query = [(''username'', uname)],
                               result_ok = False, sl_note = Some (take 200 e)\<rparr>)
            | GetResponse st body err \<Rightarrow>
                if st = 404 then (Inl (HTTPException 404 ''Player not found''), s)
                else if 400 \<le> st \<and> st < 600 then
                  (Inl (HTTPException 500 ''Failed to fetch OSRS stats''),
                   log_search s \<lparr>sl_game = ''osrs'', query = [(''username'', uname)],
                                 result_ok = False, sl_note = Some (take 200 err)\<rparr>)
                else
                  (let lines = py_split (CHR 0x0A) (py_strip body);
                       parsed = parse_skills lines
                   in (Inr \<lparr>osrs_game = ''osrs'', username = uname, skills = parsed\<rparr>,
                       log_search s \<lparr>sl_game = ''osrs'', query = [(''username'', uname)],
                                     result_ok = True, sl_note = None\<rparr>))))"

text \<open>The outcomes of a lookup the claims distinguish.\<close>

definition fetched_ok :: "get_outcome \<Rightarrow> bool" where
  "fetched_ok r = (case r of GetRaised _ \<Rightarrow> False | GetResponse st _ _ \<Rightarrow> \<not> (400 \<le> st \<and> st < 600))"

definition not_found :: "get_outcome \<Rightarrow> bool" where
  "not_found r = (case r of GetRaised _ \<Rightarrow> False | GetResponse st _ _ \<Rightarrow> st = 404)"

definition failure_note :: "get_outcome \<Rightarrow> string" where
  "failure_note r = (case r of GetRaised e \<Rightarrow> take 200 e | GetResponse _ _ err \<Rightarrow> take 200 err)"

definition response_text :: "get_outcome \<Rightarrow> string" where
  "response_text r = (case r of GetRaised _ \<Rightarrow> [] | GetResponse _ body _ \<Rightarrow> body)"

section \<open>Example data\<close>

text \<open>A small shop: two products, three unassigned codes, five pending orders.\<close>

definition shop_product :: product where
  "shop_product =
     \<lparr>title = ''Skin'', game = ''Fortnite'', reward_type = ''skin'', description = ''A skin'',
      images = [], price_cents = 500, p_currency = ''usd'', active = True, tags = [],
      p_created_at = None, p_updated_at = None\<rparr>"

definition shop_codekey :: "string \<Rightarrow> string \<Rightarrow> codekey" where
  "shop_codekey pid c =
     \<lparr>ck_product_id = pid, code = c, assigned = False, ck_order_id = None,
      ck_created_at = None, ck_updated_at = None\<rparr>"

definition shop_order :: "cart_item list \<Rightarrow> order" where
  "shop_order its =
     \<lparr>user_id = None, email = ''buyer@example.com'', name = None, items = its,
      subtotal_cents = 500 * int (sum_list (map quantity its)),
      total_cents = 500 * int (sum_list (map quantity its)), currency = ''usd'',
      payment_intent_id = None, status = ''pending'', delivered_codes = [],
      created_at = None, updated_at = None\<rparr>"

definition shop :: store where
  "shop =
     \<lparr>products = [(''p1'', shop_product), (''p2'', shop_product)],
      codekeys = [(''k1'', shop_codekey ''p1'' ''AAAA''), (''k2'', shop_codekey ''p1'' ''BBBB''),
                  (''k3'', shop_codekey ''p2'' ''CCCC'')],
      orders = [(''o1'', shop_order [\<lparr>product_id = ''p1'', quantity = 1\<rparr>]),
                (''o2'', shop_order [\<lparr>product_id = ''p1'', quantity = 1\<rparr>]),
                (''o3'', shop_order [\<lparr>product_id = ''p1'', quantity = 1\<rparr>,
                                     \<lparr>product_id = ''p1'', quantity = 1\<rparr>]),
                (''o4'', shop_order [\<lparr>product_id = ''p1'', quantity = 2\<rparr>,
                                     \<lparr>product_id = ''p2'', quantity = 1\<rparr>]),
                (''o5'', shop_order [\<lparr>product_id = ''p1'', quantity = 1\<rparr>,
                                     \<lparr>product_id = ''p2'', quantity = 2\<rparr>])],
      users = [], next_oid = 0, trace = []\<rparr>"

definition confirm_request :: "string \<Rightarrow> checkout_confirm_request" where
  "confirm_request i = \<lparr>req_order_id = i, provider = ''stripe''\<rparr>"

text \<open>A catalogue with one product at 19.99 and a cart of two of it.\<close>

definition catalog :: store where
  "catalog =
     \<lparr>products = [(''g1'', shop_product\<lparr>price_cents := 1999, p_currency := ''eur''\<rparr>)],
      codekeys = [], orders = [], users = [], next_oid = 0, trace = []\<rparr>"

definition cart :: order_create where
  "cart = \<lparr>oc_items = [\<lparr>product_id = ''g1'', quantity = 2\<rparr>],
           oc_email = ''buyer@example.com'', oc_name = None\<rparr>"

definition provider_down :: "int \<Rightarrow> string \<Rightarrow> post_outcome" where
  "provider_down amount cur = PostRaised"

definition provider_rejects :: "int \<Rightarrow> string \<Rightarrow> post_outcome" where
  "provider_rejects amount cur = PostResponse 402 (JsonObject (Some ''ignored''))"

definition provider_multiple_choices :: "int \<Rightarrow> string \<Rightarrow> post_outcome" where
  "provider_multiple_choices amount cur = PostResponse 300 (JsonObject (Some ''pi_secret''))"

text \<open>Stand-ins for the password hasher and the JWT library, and a store with one member.\<close>

definition toy_hash :: "string \<Rightarrow> string" where
  "toy_hash pw = ''$h$'' @ pw"


definition toy_encode :: "token_claims \<Rightarrow> string" where
  "toy_encode c =
     (case sub c of None \<Rightarrow> ''?'' | Some e \<Rightarrow> e) @ ''/'' @
     (case role_claim c of None \<Rightarrow> ''?'' | Some r \<Rightarrow> r)"

definition toy_decode :: "string \<Rightarrow> token_claims option" where
  "toy_decode tok =
     (if tok = ''ann/admin''
      then Some \<lparr>sub = Some ''ann@example.com'', role_claim = Some ''admin'', exp = Some 43300\<rparr>
      else if tok = ''ann''
      then Some \<lparr>sub = Some ''ann@example.com'', role_claim = None, exp = Some 43300\<rparr>
      else None)"

definition empty_store :: store where
  "empty_store = \<lparr>products = [], codekeys = [], orders = [], users = [], next_oid = 0, trace = []\<rparr>"

definition members :: store where
  "members =
     snd (register toy_hash toy_encode 50 empty_store
            \<lparr>ur_email = ''ann@example.com'', ur_password = ''secret'', ur_name = None\<rparr>)"

definition ann :: user where
  "ann =
     \<lparr>u_email = ''ann@example.com'', u_name = None, password_hash = toy_hash ''secret'',
      role = ''user'', u_created_at = Some 50, u_updated_at = Some 50\<rparr>"

text \<open>
  Ann, holding a token with the role \<open>admin\<close>, imports the same code string twice for
  product \<open>p1\<close>; order \<open>o6\<close> then asks for two codes of \<open>p1\<close>.
\<close>

definition shop_import :: store where
  "shop_import =
     snd (add_codes toy_decode 70
            (members\<lparr>orders := [(''o6'', shop_order [\<lparr>product_id = ''p1'', quantity = 2\<rparr>])]\<rparr>)
            \<lparr>ac_product_id = ''p1'', ac_codes = [''SAME'', ''SAME'']\<rparr> ''ann/admin'')"

text \<open>A hiscore server that knows nobody, one that answers, and a feed with a bad line.\<close>

definition hiscores_unknown :: "string \<Rightarrow> get_outcome" where
  "hiscores_unknown url = GetResponse 404 ''Not found'' ''404 Client Error''"

definition feed :: "string list" where
  "feed = [''100,2277,4600000000'', ''200,99,13034431'', ''300,99,14000000'']"

definition feed_text :: string where
  "feed_text = join (CHR 0x0A) (feed[1 := ''n/a'']) @ [CHR 0x0A]"

definition hiscores_feed :: "string \<Rightarrow> get_outcome" where
  "hiscores_feed url = GetResponse 200 feed_text []"

definition hiscores_down :: "string \<Rightarrow> get_outcome" where
  "hiscores_down url = GetRaised ''timed out''"

definition log_store :: proxy_store where
  "log_store = \<lparr>searchlog = [], available = True\<rparr>"

section \<open>The example stores, evaluated\<close>

lemma oid_of_small:
  "oid_of 0 = ''oid0''" "oid_of (Suc 0) = ''oid1''" "oid_of (Suc (Suc 0)) = ''oid2''"
  by code_simp+

lemma members_eq:
  "members =
     \<lparr>products = [], codekeys = [], orders = [], users = [(''oid0'', ann)], next_oid = Suc 0,
      trace = [Created ''user'' ''oid0'']\<rparr>"
  by (simp add: members_def register_def get_user_by_email_def get_documents_def empty_store_def
      create_user_def ann_def oid_of_small Let_def)

lemma shop_import_eq:
  "codekeys shop_import =
     [(''oid1'', \<lparr>ck_product_id = ''p1'', code = ''SAME'', assigned = False, ck_order_id = None,
                  ck_created_at = Some 70, ck_updated_at = Some 70\<rparr>),
      (''oid2'', \<lparr>ck_product_id = ''p1'', code = ''SAME'', assigned = False, ck_order_id = None,
                  ck_created_at = Some 70, ck_updated_at = Some 70\<rparr>)]"
  "orders shop_import = [(''o6'', shop_order [\<lparr>product_id = ''p1'', quantity = 2\<rparr>])]"
  by (simp_all add: shop_import_def add_codes_def get_current_user_def toy_decode_def
      get_user_by_email_def get_documents_def members_eq ann_def create_codekey_def oid_of_small
      Let_def)

section \<open>Checkout confirmation: the loop\<close>

lemma get_documents_by_id:
  "get_documents xs (\<lambda>(i, _). i = k) (Suc 0) = (case map_of xs k of None \<Rightarrow> [] | Some v \<Rightarrow> [(k, v)])"
  unfolding get_documents_def
  by (induction xs) (auto split: option.split)

lemma nth_upt_take:
  "n \<le> length xs \<Longrightarrow> map (\<lambda>i. f (xs ! i)) [0..<n] = map f (take n xs)"
  by (simp add: list_eq_iff_nth_eq)

lemma find_available_codes_take:
  "find_available_codes s pid qty = take qty (unassigned_codes s pid)"
  by (simp add: find_available_codes_def get_documents_def unassigned_codes_def)

lemma checkout_confirm_loop_ok:
  "list_all (sufficient_stock s) its \<Longrightarrow>
   checkout_confirm_loop s its acc = Inr (acc @ concat (map (selected_codes s) its))"
proof (induction its arbitrary: acc)
  case Nil
  then show ?case by simp
next
  case (Cons it rest)
  from Cons.prems have it: "sufficient_stock s it"
    and rest: "list_all (sufficient_stock s) rest"
    by simp_all
  from it have suff: "quantity it \<le> length (unassigned_codes s (product_id it))"
    by (simp add: sufficient_stock_def)
  have len: "length (find_available_codes s (product_id it) (quantity it)) = quantity it"
    using suff by (simp add: find_available_codes_take)
  have sel: "map (\<lambda>i. code (snd (find_available_codes s (product_id it) (quantity it) ! i))) [0..<quantity it]
             = selected_codes s it"
    using len by (simp add: nth_upt_take [where f = "\<lambda>d. code (snd d)"] selected_codes_def find_available_codes_take)
  show ?case
    using len sel Cons.IH [OF rest] by (simp add: Let_def)
qed

lemma checkout_confirm_loop_short:
  "\<not> list_all (sufficient_stock s) its \<Longrightarrow>
   checkout_confirm_loop s its acc = Inl (HTTPException 409 ''Insufficient stock for a product'')"
proof (induction its arbitrary: acc)
  case Nil
  then show ?case by simp
next
  case (Cons it rest)
  show ?case
  proof (cases "sufficient_stock s it")
    case True
    then have "length (find_available_codes s (product_id it) (quantity it)) = quantity it"
      by (simp add: find_available_codes_take sufficient_stock_def)
    moreover from True Cons.prems have "\<not> list_all (sufficient_stock s) rest" by simp
    ultimately show ?thesis using Cons.IH by (simp add: Let_def)
  next
    case False
    then have "length (find_available_codes s (product_id it) (quantity it)) < quantity it"
      by (simp add: find_available_codes_take sufficient_stock_def)
    then show ?thesis by (simp add: Let_def)
  qed
qed

lemma checkout_confirm_found:
  "map_of (orders s) (req_order_id payload) = Some ord \<Longrightarrow>
   checkout_confirm s payload =
     (case checkout_confirm_loop s (items ord) [] of
        Inl e \<Rightarrow> (Inl e, s)
      | Inr cs \<Rightarrow> (Inr \<lparr>resp_order_id = req_order_id payload, codes = cs\<rparr>, s))"
  by (simp add: checkout_confirm_def get_documents_by_id)

lemma checkout_confirm_missing:
  "map_of (orders s) (req_order_id payload) = None \<Longrightarrow>
   checkout_confirm s payload = (Inl (HTTPException 404 ''Order not found''), s)"
  by (simp add: checkout_confirm_def get_documents_by_id)

lemma length_concat_selected:
  "list_all (sufficient_stock s) its \<Longrightarrow>
   length (concat (map (selected_codes s) its)) = sum_list (map quantity its)"
  by (induction its) (simp_all add: selected_codes_def sufficient_stock_def)

lemma selected_codes_sub:
  "c \<in> set (selected_codes s it) \<Longrightarrow>
   \<exists>d \<in> set (unassigned_all s). code (snd d) = c \<and> ck_product_id (snd d) = product_id it"
  by (fastforce simp: selected_codes_def unassigned_codes_def unassigned_all_def dest!: in_set_takeD)

lemma distinct_selected_codes:
  assumes "distinct (map (\<lambda>d. code (snd d)) (unassigned_all s))"
  shows "distinct (selected_codes s it)"
proof -
  have eq: "unassigned_codes s (product_id it)
      = filter (\<lambda>(_, d). ck_product_id d = product_id it) (unassigned_all s)"
    by (simp add: unassigned_codes_def unassigned_all_def case_prod_unfold conj_commute)
  have "distinct (map (\<lambda>d. code (snd d)) (unassigned_codes s (product_id it)))"
    unfolding eq using assms by (rule distinct_map_filter)
  then show ?thesis
    unfolding selected_codes_def by (simp add: take_map [symmetric])
qed

lemma distinct_concat_selected:
  assumes dc: "distinct (map (\<lambda>d. code (snd d)) (unassigned_all s))"
  shows "distinct (map product_id its) \<Longrightarrow> distinct (concat (map (selected_codes s) its))"
proof (induction its)
  case Nil
  then show ?case by simp
next
  case (Cons it rest)
  have inj: "inj_on (\<lambda>d. code (snd d)) (set (unassigned_all s))"
    using dc by (simp add: distinct_map)
  have disj: "set (selected_codes s it) \<inter> set (concat (map (selected_codes s) rest)) = {}"
  proof (rule ccontr)
    assume "set (selected_codes s it) \<inter> set (concat (map (selected_codes s) rest)) \<noteq> {}"
    then obtain c it' where c1: "c \<in> set (selected_codes s it)"
      and it': "it' \<in> set rest" and c2: "c \<in> set (selected_codes s it')"
      by auto
    from selected_codes_sub [OF c1] obtain d where
      d: "d \<in> set (unassigned_all s)" "code (snd d) = c" "ck_product_id (snd d) = product_id it"
      by blast
    from selected_codes_sub [OF c2] obtain d' where
      d': "d' \<in> set (unassigned_all s)" "code (snd d') = c" "ck_product_id (snd d') = product_id it'"
      by blast
    from inj d d' have "d = d'" by (auto dest: inj_onD)
    with d d' have "product_id it = product_id it'" by simp
    with it' Cons.prems show False by auto
  qed
  from Cons show ?case
    using disj distinct_selected_codes [OF dc] by simp
qed

lemma selected_unassigned:
  "list_all (\<lambda>d. \<not> assigned (snd d)) (take q (unassigned_codes s pid))"
  by (auto simp: list_all_iff unassigned_codes_def dest!: in_set_takeD)



section \<open>Properties of checkout confirmation\<close>

text \<open>
  C1, as the code has it: for an order that is found and whose every line item has
  sufficient unassigned stock, \<^verbatim>\<open>checkout_confirm\<close> returns, in item order, the codes of the
  first \<open>quantity\<close> unassigned code keys of each item's product; the list has one code
  per requested unit (its length is the sum of the quantities). The returned codes are
  pairwise distinct when the line items name pairwise distinct products and the
  unassigned code keys of the store carry pairwise distinct code strings. Nothing is
  reserved by the call, so nothing is promised across orders.
\<close>

theorem checkout_confirm_codes:
  assumes "map_of (orders s) (req_order_id payload) = Some ord"
    and "list_all (sufficient_stock s) (items ord)"
  shows "fst (checkout_confirm s payload) =
           Inr \<lparr>resp_order_id = req_order_id payload,
                codes = concat (map (selected_codes s) (items ord))\<rparr>
         \<and> length (concat (map (selected_codes s) (items ord))) = sum_list (map quantity (items ord))
         \<and> (distinct (map product_id (items ord))
              \<and> distinct (map (\<lambda>d. code (snd d)) (unassigned_all s))
            \<longrightarrow> distinct (concat (map (selected_codes s) (items ord))))"
  using assms
  by (simp add: checkout_confirm_found checkout_confirm_loop_ok length_concat_selected
      distinct_concat_selected)

text \<open>Order \<open>o4\<close> of the shop: two codes of \<open>p1\<close>, one of \<open>p2\<close>.\<close>

theorem checkout_confirm_codes_witness:
  "map_of (orders shop) (req_order_id (confirm_request ''o4'')) =
     Some (shop_order [\<lparr>product_id = ''p1'', quantity = 2\<rparr>, \<lparr>product_id = ''p2'', quantity = 1\<rparr>])
   \<and> list_all (sufficient_stock shop)
       (items (shop_order [\<lparr>product_id = ''p1'', quantity = 2\<rparr>, \<lparr>product_id = ''p2'', quantity = 1\<rparr>]))
   \<and> distinct (map product_id
       (items (shop_order [\<lparr>product_id = ''p1'', quantity = 2\<rparr>, \<lparr>product_id = ''p2'', quantity = 1\<rparr>])))
   \<and> distinct (map (\<lambda>d. code (snd d)) (unassigned_all shop))
   \<and> fst (checkout_confirm shop (confirm_request ''o4'')) =
       Inr \<lparr>resp_order_id = ''o4'', codes = [''AAAA'', ''BBBB'', ''CCCC'']\<rparr>
   \<and> distinct [''AAAA'', ''BBBB'', ''CCCC'']"
  using checkout_confirm_codes [of shop "confirm_request ''o4''"
      "shop_order [\<lparr>product_id = ''p1'', quantity = 2\<rparr>, \<lparr>product_id = ''p2'', quantity = 1\<rparr>]"]
  by (simp add: shop_def shop_order_def shop_codekey_def confirm_request_def sufficient_stock_def
      unassigned_codes_def unassigned_all_def selected_codes_def)

text \<open>
  The claim as the spec states it fails. Orders \<open>o1\<close> and \<open>o2\<close>, confirmed one after the
  other, are both handed \<open>AAAA\<close>; order \<open>o3\<close>, with two lines of the same product,
  gets \<open>AAAA\<close> twice; and after \<^verbatim>\<open>add_codes\<close> has imported the same code string
  twice, order \<open>o6\<close> gets it twice. Every line item has sufficient stock each time.
\<close>

theorem checkout_confirm_codes_shared:
  "list_all (sufficient_stock shop) [\<lparr>product_id = ''p1'', quantity = 1\<rparr>]
   \<and> fst (checkout_confirm shop (confirm_request ''o1'')) =
       Inr \<lparr>resp_order_id = ''o1'', codes = [''AAAA'']\<rparr>
   \<and> fst (checkout_confirm (snd (checkout_confirm shop (confirm_request ''o1''))) (confirm_request ''o2'')) =
       Inr \<lparr>resp_order_id = ''o2'', codes = [''AAAA'']\<rparr>
   \<and> list_all (sufficient_stock shop)
       [\<lparr>product_id = ''p1'', quantity = 1\<rparr>, \<lparr>product_id = ''p1'', quantity = 1\<rparr>]
   \<and> fst (checkout_confirm shop (confirm_request ''o3'')) =
       Inr \<lparr>resp_order_id = ''o3'', codes = [''AAAA'', ''AAAA'']\<rparr>
   \<and> list_all (sufficient_stock shop_import) [\<lparr>product_id = ''p1'', quantity = 2\<rparr>]
   \<and> fst (checkout_confirm shop_import (confirm_request ''o6'')) =
       Inr \<lparr>resp_order_id = ''o6'', codes = [''SAME'', ''SAME'']\<rparr>"
proof -
  have two_orders: "list_all (sufficient_stock shop) [\<lparr>product_id = ''p1'', quantity = 1\<rparr>]
   \<and> fst (checkout_confirm shop (confirm_request ''o1'')) =
       Inr \<lparr>resp_order_id = ''o1'', codes = [''AAAA'']\<rparr>
   \<and> fst (checkout_confirm (snd (checkout_confirm shop (confirm_request ''o1''))) (confirm_request ''o2'')) =
       Inr \<lparr>resp_order_id = ''o2'', codes = [''AAAA'']\<rparr>"
    by code_simp
  have two_lines: "list_all (sufficient_stock shop)
       [\<lparr>product_id = ''p1'', quantity = 1\<rparr>, \<lparr>product_id = ''p1'', quantity = 1\<rparr>]
   \<and> fst (checkout_confirm shop (confirm_request ''o3'')) =
       Inr \<lparr>resp_order_id = ''o3'', codes = [''AAAA'', ''AAAA'']\<rparr>"
    by code_simp
  have stock: "list_all (sufficient_stock shop_import) [\<lparr>product_id = ''p1'', quantity = 2\<rparr>]"
    by (simp add: sufficient_stock_def unassigned_codes_def shop_import_eq)
  have found: "map_of (orders shop_import) (req_order_id (confirm_request ''o6'')) =
      Some (shop_order [\<lparr>product_id = ''p1'', quantity = 2\<rparr>])"
    by (simp add: shop_import_eq confirm_request_def)
  have its: "items (shop_order [\<lparr>product_id = ''p1'', quantity = 2\<rparr>]) =
      [\<lparr>product_id = ''p1'', quantity = 2\<rparr>]"
    by (simp add: shop_order_def)
  have loop: "checkout_confirm_loop shop_import [\<lparr>product_id = ''p1'', quantity = 2\<rparr>] [] =
      Inr ([] @ concat (map (selected_codes shop_import) [\<lparr>product_id = ''p1'', quantity = 2\<rparr>]))"
    using stock by (rule checkout_confirm_loop_ok)
  have sel: "selected_codes shop_import \<lparr>product_id = ''p1'', quantity = 2\<rparr> = [''SAME'', ''SAME'']"
    by (simp add: selected_codes_def unassigned_codes_def shop_import_eq)
  have "checkout_confirm shop_import (confirm_request ''o6'') =
      (Inr \<lparr>resp_order_id = req_order_id (confirm_request ''o6''), codes = [''SAME'', ''SAME'']\<rparr>,
       shop_import)"
    unfolding checkout_confirm_found [OF found] its loop by (simp add: sel)
  then have same_code: "fst (checkout_confirm shop_import (confirm_request ''o6'')) =
       Inr \<lparr>resp_order_id = ''o6'', codes = [''SAME'', ''SAME'']\<rparr>"
    by (simp add: confirm_request_def)
  from two_orders two_lines stock same_code show ?thesis by simp
qed

text \<open>
  C2, as the code has it: when \<^verbatim>\<open>checkout_confirm\<close> succeeds it returns the order id and,
  in item order, the code strings of the selected code keys; the code key and order
  collections are as they were before the call, so every selected code key is still
  unassigned after it, and the order keeps its status and its delivered codes.
\<close>

theorem checkout_confirm_success_store:
  assumes "fst (checkout_confirm s payload) = Inr resp"
  shows "codekeys (snd (checkout_confirm s payload)) = codekeys s
         \<and> orders (snd (checkout_confirm s payload)) = orders s
         \<and> resp_order_id resp = req_order_id payload
         \<and> (case map_of (orders s) (req_order_id payload) of
               None \<Rightarrow> False
             | Some ord \<Rightarrow>
                 codes resp = concat (map (selected_codes s) (items ord))
                 \<and> list_all (\<lambda>it. list_all (\<lambda>d. \<not> assigned (snd d))
                       (take (quantity it)
                          (unassigned_codes (snd (checkout_confirm s payload)) (product_id it))))
                     (items ord))"
proof (cases "map_of (orders s) (req_order_id payload)")
  case None
  with assms show ?thesis by (simp add: checkout_confirm_missing)
next
  case (Some ord)
  show ?thesis
  proof (cases "list_all (sufficient_stock s) (items ord)")
    case True
    have "list_all (\<lambda>it. list_all (\<lambda>d. \<not> assigned (snd d))
            (take (quantity it) (unassigned_codes s (product_id it)))) (items ord)"
      by (simp add: selected_unassigned, simp add: list_all_iff)
    with assms Some True show ?thesis
      by (auto simp: checkout_confirm_found checkout_confirm_loop_ok)
  next
    case False
    with assms Some show ?thesis
      by (simp add: checkout_confirm_found checkout_confirm_loop_short)
  qed
qed

text \<open>Order \<open>o4\<close> of the shop succeeds.\<close>

theorem checkout_confirm_success_store_witness:
  "fst (checkout_confirm shop (confirm_request ''o4'')) =
     Inr \<lparr>resp_order_id = ''o4'', codes = [''AAAA'', ''BBBB'', ''CCCC'']\<rparr>
   \<and> codekeys (snd (checkout_confirm shop (confirm_request ''o4''))) = codekeys shop
   \<and> orders (snd (checkout_confirm shop (confirm_request ''o4''))) = orders shop"
proof -
  have r: "fst (checkout_confirm shop (confirm_request ''o4'')) =
     Inr \<lparr>resp_order_id = ''o4'', codes = [''AAAA'', ''BBBB'', ''CCCC'']\<rparr>"
    by code_simp
  from checkout_confirm_success_store [OF r] r show ?thesis by simp
qed

text \<open>
  The claim as the spec states it fails: after order \<open>o1\<close> has been confirmed and handed
  \<open>AAAA\<close>, the code key \<open>k1\<close> holding that code has \<open>assigned = False\<close> and no order id,
  and the order is \<open>pending\<close> with no delivered codes.
\<close>

theorem checkout_confirm_marks_nothing:
  "fst (checkout_confirm shop (confirm_request ''o1'')) =
     Inr \<lparr>resp_order_id = ''o1'', codes = [''AAAA'']\<rparr>
   \<and> map_option code (map_of (codekeys (snd (checkout_confirm shop (confirm_request ''o1'')))) ''k1'')
       = Some ''AAAA''
   \<and> map_option assigned (map_of (codekeys (snd (checkout_confirm shop (confirm_request ''o1'')))) ''k1'')
       = Some False
   \<and> map_option ck_order_id (map_of (codekeys (snd (checkout_confirm shop (confirm_request ''o1'')))) ''k1'')
       = Some None
   \<and> map_option status (map_of (orders (snd (checkout_confirm shop (confirm_request ''o1'')))) ''o1'')
       = Some ''pending''
   \<and> map_option delivered_codes (map_of (orders (snd (checkout_confirm shop (confirm_request ''o1'')))) ''o1'')
       = Some []"
  by code_simp

text \<open>
  C3, as the code has it: if the order is found and some line item has fewer unassigned
  codes than its quantity, \<^verbatim>\<open>checkout_confirm\<close> raises the 409 exception with the detail
  \<open>Insufficient stock for a product\<close> and leaves the store as it was: the order keeps
  its status and no code is allocated to it.
\<close>

theorem checkout_confirm_insufficient:
  assumes "map_of (orders s) (req_order_id payload) = Some ord"
    and "\<not> list_all (sufficient_stock s) (items ord)"
  shows "checkout_confirm s payload =
           (Inl (HTTPException 409 ''Insufficient stock for a product''), s)"
  using assms by (simp add: checkout_confirm_found checkout_confirm_loop_short)

text \<open>Order \<open>o5\<close> of the shop asks for two codes of \<open>p2\<close>, which has one.\<close>

theorem checkout_confirm_insufficient_witness:
  "map_of (orders shop) (req_order_id (confirm_request ''o5'')) =
     Some (shop_order [\<lparr>product_id = ''p1'', quantity = 1\<rparr>, \<lparr>product_id = ''p2'', quantity = 2\<rparr>])
   \<and> \<not> list_all (sufficient_stock shop)
       (items (shop_order [\<lparr>product_id = ''p1'', quantity = 1\<rparr>, \<lparr>product_id = ''p2'', quantity = 2\<rparr>]))
   \<and> checkout_confirm shop (confirm_request ''o5'') =
       (Inl (HTTPException 409 ''Insufficient stock for a product''), shop)"
  using checkout_confirm_insufficient [of shop "confirm_request ''o5''"
      "shop_order [\<lparr>product_id = ''p1'', quantity = 1\<rparr>, \<lparr>product_id = ''p2'', quantity = 2\<rparr>]"]
  by (simp add: shop_def shop_order_def shop_codekey_def confirm_request_def sufficient_stock_def
      unassigned_codes_def)

text \<open>
  The claim as the spec states it fails on the message only: the detail of the 409
  exception is not \<open>Insufficient stock\<close>.
\<close>

theorem checkout_confirm_insufficient_message:
  "\<not> list_all (sufficient_stock shop)
       [\<lparr>product_id = ''p1'', quantity = 1\<rparr>, \<lparr>product_id = ''p2'', quantity = 2\<rparr>]
   \<and> fst (checkout_confirm shop (confirm_request ''o5'')) =
       Inl (HTTPException 409 ''Insufficient stock for a product'')
   \<and> fst (checkout_confirm shop (confirm_request ''o5'')) \<noteq>
       Inl (HTTPException 409 ''Insufficient stock'')"
  by code_simp


text \<open>
  C4: \<^verbatim>\<open>checkout_confirm\<close> only reads the store. On every path (response, 404, 409) the
  store after the call, the trace of effects included, is the store before it.
\<close>

theorem checkout_confirm_read_only:
  "snd (checkout_confirm s payload) = s"
  by (simp add: checkout_confirm_def split: list.split sum.split)
section \<open>Properties of checkout initiation\<close>

lemma cart_currency_Cons:
  "cart_currency s (it # rest) =
     (if rest = [] then (case map_of (products s) (product_id it) of None \<Rightarrow> ''usd'' | Some p \<Rightarrow> p_currency p)
      else cart_currency s rest)"
  by (simp add: cart_currency_def)

lemma checkout_init_loop_ok:
  "list_all (product_exists s) its \<Longrightarrow>
   checkout_init_loop s its subtotal cur =
     Inr (subtotal + cart_total s its, if its = [] then cur else cart_currency s its)"
proof (induction its arbitrary: subtotal cur)
  case Nil
  then show ?case by (simp add: cart_total_def)
next
  case (Cons it rest)
  from Cons.prems have it: "product_exists s it" and rest: "list_all (product_exists s) rest"
    by simp_all
  from it obtain p where p: "map_of (products s) (product_id it) = Some p"
    by (auto simp: product_exists_def)
  show ?case
    using p Cons.IH [OF rest]
    by (simp add: get_documents_by_id cart_total_def line_total_def cart_currency_Cons)
qed

lemma checkout_init_loop_error:
  "\<not> list_all (product_exists s) its \<Longrightarrow>
   \<exists>pid. checkout_init_loop s its subtotal cur = Inl (HTTPException 400 (''Invalid product '' @ pid))"
proof (induction its arbitrary: subtotal cur)
  case Nil
  then show ?case by simp
next
  case (Cons it rest)
  show ?case
  proof (cases "map_of (products s) (product_id it)")
    case None
    then show ?thesis by (simp add: get_documents_by_id)
  next
    case (Some p)
    then have "product_exists s it"
      by (simp add: product_exists_def)
    with Cons.prems have "\<not> list_all (product_exists s) rest"
      by simp
    from Cons.IH [OF this] Some show ?thesis
      by (simp add: get_documents_by_id)
  qed
qed

lemma payment_intent_store:
  "snd (payment_intent post s amount cur) = s\<lparr>trace := trace s @ [PaymentIntentPost amount cur]\<rparr>"
  by (simp add: payment_intent_def Let_def split: post_outcome.split json_outcome.split)

lemma payment_intent_failed:
  "payment_failed (post amount cur) \<Longrightarrow> fst (payment_intent post s amount cur) = None"
  by (auto simp: payment_intent_def payment_failed_def response_ok_def Let_def
      split: post_outcome.splits json_outcome.splits)

text \<open>
  C5: for a cart whose every item names a product of the catalogue, \<^verbatim>\<open>checkout_init\<close>
  answers with a total that is the sum over the items of price times quantity, and
  appends one order to the order collection, with that sum as subtotal, the total equal
  to the subtotal, and status \<open>pending\<close>.
\<close>

theorem checkout_init_total:
  assumes "list_all (product_exists s) (oc_items payload)"
  shows "(\<exists>secret. fst (checkout_init key post now s payload) =
            Inr \<lparr>client_secret = secret, init_order_id = oid_of (next_oid s),
                 init_total_cents = cart_total s (oc_items payload)\<rparr>)
         \<and> (\<exists>ord. orders (snd (checkout_init key post now s payload)) =
                     orders s @ [(oid_of (next_oid s), ord)]
                \<and> items ord = oc_items payload
                \<and> subtotal_cents ord = cart_total s (oc_items payload)
                \<and> total_cents ord = subtotal_cents ord
                \<and> status ord = ''pending'')"
  using checkout_init_loop_ok [OF assms, of 0 "''usd''"]
  by (simp add: checkout_init_def create_order_def payment_intent_store Let_def case_prod_unfold)

text \<open>The example of the spec: two units at 1999 make 3998.\<close>

theorem checkout_init_total_witness:
  "list_all (product_exists catalog) (oc_items cart)
   \<and> cart_total catalog (oc_items cart) = 3998
   \<and> fst (checkout_init [] provider_down 1000 catalog cart) =
       Inr \<lparr>client_secret = None, init_order_id = ''oid0'', init_total_cents = 3998\<rparr>
   \<and> map (\<lambda>(i, ord). (i, subtotal_cents ord, total_cents ord, status ord))
        (orders (snd (checkout_init [] provider_down 1000 catalog cart))) =
       [(''oid0'', 3998, 3998, ''pending'')]"
proof -
  have valid: "list_all (product_exists catalog) (oc_items cart)"
    by code_simp
  have run: "cart_total catalog (oc_items cart) = 3998
   \<and> fst (checkout_init [] provider_down 1000 catalog cart) =
       Inr \<lparr>client_secret = None, init_order_id = ''oid0'', init_total_cents = 3998\<rparr>
   \<and> map (\<lambda>(i, ord). (i, subtotal_cents ord, total_cents ord, status ord))
        (orders (snd (checkout_init [] provider_down 1000 catalog cart))) =
       [(''oid0'', 3998, 3998, ''pending'')]"
    by code_simp
  from checkout_init_total [OF valid, of "[]" provider_down 1000] valid run
  show ?thesis by simp
qed

text \<open>
  C6, as the code has it: for a cart whose every item names a product, the order is
  created first and the payment-intent request, made only when a provider key is
  configured, comes after it in the trace of effects. Whatever the provider does, the
  call answers with the order id and the total, and the order collection is the one any
  other key and any other provider behaviour would have left. When a key is configured
  and the request fails as the code sees it (it raises, the response has an error status,
  400 to 599, or its body does not decode), the answer carries no client secret.
\<close>

theorem checkout_init_payment:
  assumes "list_all (product_exists s) (oc_items payload)"
  shows "(\<exists>secret. fst (checkout_init key post now s payload) =
            Inr \<lparr>client_secret = secret, init_order_id = oid_of (next_oid s),
                 init_total_cents = cart_total s (oc_items payload)\<rparr>)
         \<and> trace (snd (checkout_init key post now s payload)) =
             trace s @ Created ''order'' (oid_of (next_oid s)) #
               (if key = [] then []
                else [PaymentIntentPost (cart_total s (oc_items payload))
                        (cart_currency s (oc_items payload))])
         \<and> orders (snd (checkout_init key post now s payload)) =
             orders (snd (checkout_init key' post' now s payload))
         \<and> length (orders (snd (checkout_init key post now s payload))) = Suc (length (orders s))
         \<and> (key \<noteq> [] \<and> payment_failed (post (cart_total s (oc_items payload))
                                            (cart_currency s (oc_items payload)))
            \<longrightarrow> fst (checkout_init key post now s payload) =
                  Inr \<lparr>client_secret = None, init_order_id = oid_of (next_oid s),
                       init_total_cents = cart_total s (oc_items payload)\<rparr>)"
  using checkout_init_loop_ok [OF assms, of 0 "''usd''"]
  by (auto simp: checkout_init_def create_order_def payment_intent_store payment_intent_failed
      Let_def case_prod_unfold cart_currency_def)


text \<open>A provider that cannot be reached and one that rejects the request.\<close>

theorem checkout_init_payment_witness:
  "list_all (product_exists catalog) (oc_items cart)
   \<and> payment_failed (provider_down 3998 ''eur'')
   \<and> payment_failed (provider_rejects 3998 ''eur'')
   \<and> fst (checkout_init ''sk_test'' provider_down 1000 catalog cart) =
       Inr \<lparr>client_secret = None, init_order_id = ''oid0'', init_total_cents = 3998\<rparr>
   \<and> fst (checkout_init ''sk_test'' provider_rejects 1000 catalog cart) =
       Inr \<lparr>client_secret = None, init_order_id = ''oid0'', init_total_cents = 3998\<rparr>
   \<and> trace (snd (checkout_init ''sk_test'' provider_down 1000 catalog cart)) =
       [Created ''order'' ''oid0'', PaymentIntentPost 3998 ''eur'']
   \<and> orders (snd (checkout_init ''sk_test'' provider_down 1000 catalog cart)) =
       orders (snd (checkout_init [] provider_rejects 1000 catalog cart))"
proof -
  have valid: "list_all (product_exists catalog) (oc_items cart)"
    by code_simp
  have vals: "cart_total catalog (oc_items cart) = 3998"
    "cart_currency catalog (oc_items cart) = ''eur''" "oid_of (next_oid catalog) = ''oid0''"
    "trace catalog = []"
    by code_simp+
  have failed: "payment_failed (provider_down 3998 ''eur'')"
    "payment_failed (provider_rejects 3998 ''eur'')"
    by code_simp+
  from checkout_init_payment [OF valid, of "''sk_test''" provider_down 1000 "[]" provider_rejects]
    checkout_init_payment [OF valid, of "''sk_test''" provider_rejects 1000 "[]" provider_rejects]
    valid failed
  show ?thesis by (simp add: vals)
qed

text \<open>
  The claim as the spec states it fails for a response that is outside the 2xx range and
  still \<^verbatim>\<open>ok\<close>: a provider answering 300 with a client secret in the body has it
  passed on.
\<close>

theorem checkout_init_secret_on_300:
  "non_2xx (provider_multiple_choices 3998 ''eur'')
   \<and> fst (checkout_init ''sk_test'' provider_multiple_choices 1000 catalog cart) =
       Inr \<lparr>client_secret = Some ''pi_secret'', init_order_id = ''oid0'', init_total_cents = 3998\<rparr>"
  by code_simp

section \<open>Properties of authentication\<close>

lemma get_user_by_email_find:
  "get_user_by_email s e = find (\<lambda>(_, u). u_email u = e) (users s)"
proof -
  have "(case take (Suc 0) (filter P xs) of [] \<Rightarrow> None | r # _ \<Rightarrow> Some r) = find P xs" for P and xs :: "(oid \<times> user) list"
    by (induction xs) simp_all
  then show ?thesis
    by (simp add: get_user_by_email_def get_documents_def)
qed

lemma find_with_roles:
  "find (\<lambda>(_, u). u_email u = e) (map (\<lambda>(i, u). (i, u\<lparr>role := f (i, u)\<rparr>)) xs) =
   map_option (\<lambda>(i, u). (i, u\<lparr>role := f (i, u)\<rparr>)) (find (\<lambda>(_, u). u_email u = e) xs)"
  by (induction xs) (auto simp: case_prod_unfold)

lemma get_current_user_with_roles:
  "get_current_user jwt_decode (with_roles f s) token = get_current_user jwt_decode s token"
  by (cases "find (\<lambda>(_, u). u_email u = the (sub (the (jwt_decode token)))) (users s)")
     (auto simp: get_current_user_def get_user_by_email_find with_roles_def find_with_roles
           split: option.split)



lemma add_codes_loop_ids:
  "fst (add_codes_loop now pid s cs inserted) =
     inserted @ map oid_of [next_oid s..<next_oid s + length cs]"
proof (induction cs arbitrary: s inserted)
  case Nil
  then show ?case by simp
next
  case (Cons c cs)
  have "[next_oid s..<next_oid s + Suc (length cs)] =
      next_oid s # [Suc (next_oid s)..<Suc (next_oid s) + length cs]"
    using upt_conv_Cons [of "next_oid s" "next_oid s + Suc (length cs)"]
    by (simp del: upt_Suc)
  then show ?case
    by (simp add: create_codekey_def Let_def Cons.IH del: upt_Suc)
qed

text \<open>
  C10: for a token that decodes to a payload whose subject is the email of a stored
  user, \<^verbatim>\<open>get_current_user\<close> returns the role of the payload (\<open>user\<close> when the payload has
  none), and \<^verbatim>\<open>create_product\<close> answers \<open>Admin only\<close> exactly when that role is not
  \<open>admin\<close>. The role stored in the user document is not consulted: rewriting the stored
  roles in any way changes neither what \<^verbatim>\<open>get_current_user\<close> returns nor what
  \<^verbatim>\<open>create_product\<close> and \<^verbatim>\<open>add_codes\<close> answer for the same token.
\<close>

theorem get_current_user_role:
  "(jwt_decode token = Some payload \<and> sub payload = Some e
      \<and> find (\<lambda>(_, u). u_email u = e) (users s) = Some (i, u)
    \<longrightarrow> get_current_user jwt_decode s token =
          Inr \<lparr>cu_email = e,
               cu_role = (case role_claim payload of None \<Rightarrow> ''user'' | Some r \<Rightarrow> r),
               cu_id = i\<rparr>
        \<and> (fst (create_product jwt_decode now s product token) = Inl (HTTPException 403 ''Admin only'')
             \<longleftrightarrow> role_claim payload \<noteq> Some ''admin''))
   \<and> get_current_user jwt_decode (with_roles f s) token = get_current_user jwt_decode s token
   \<and> fst (create_product jwt_decode now (with_roles f s) product token) =
       fst (create_product jwt_decode now s product token)
   \<and> fst (add_codes jwt_decode now (with_roles f s) import token) =
       fst (add_codes jwt_decode now s import token)"
proof -
  have same: "get_current_user jwt_decode (with_roles f s) token = get_current_user jwt_decode s token"
    by (rule get_current_user_with_roles)
  have ids: "next_oid (with_roles f s) = next_oid s"
    by (simp add: with_roles_def)
  then have prod: "fst (create_product jwt_decode now (with_roles f s) product token) =
       fst (create_product jwt_decode now s product token)"
    by (simp add: create_product_def same create_product_doc_def Let_def split: sum.split)
  have codes: "fst (add_codes jwt_decode now (with_roles f s) import token) =
       fst (add_codes jwt_decode now s import token)"
    by (simp add: add_codes_def same add_codes_loop_ids ids case_prod_unfold split: sum.split)
  show ?thesis
    using same prod codes
    by (auto simp: get_current_user_def get_user_by_email_find create_product_def
        create_product_doc_def Let_def split: option.splits)
qed


text \<open>Ann is stored with the role \<open>user\<close>; a token claiming \<open>admin\<close> makes her one.\<close>

theorem get_current_user_role_witness:
  "toy_decode ''ann/admin'' =
     Some \<lparr>sub = Some ''ann@example.com'', role_claim = Some ''admin'', exp = Some 43300\<rparr>
   \<and> find (\<lambda>(_, u). u_email u = ''ann@example.com'') (users members) = Some (''oid0'', ann)
   \<and> role ann = ''user''
   \<and> get_current_user toy_decode members ''ann/admin'' =
       Inr \<lparr>cu_email = ''ann@example.com'', cu_role = ''admin'', cu_id = ''oid0''\<rparr>
   \<and> fst (create_product toy_decode 60 members shop_product ''ann/admin'') \<noteq>
       Inl (HTTPException 403 ''Admin only'')"
proof -
  have us: "users members = [(''oid0'', ann)]"
    by (simp add: members_eq)
  have ann: "find (\<lambda>(_, u). u_email u = ''ann@example.com'') (users members) = Some (''oid0'', ann)"
    by (simp add: us ann_def)
  have tok: "toy_decode ''ann/admin'' =
     Some \<lparr>sub = Some ''ann@example.com'', role_claim = Some ''admin'', exp = Some 43300\<rparr>"
    by (simp add: toy_decode_def)
  have r: "role ann = ''user''"
    by (simp add: ann_def)
  from get_current_user_role [of toy_decode "''ann/admin''"
      "\<lparr>sub = Some ''ann@example.com'', role_claim = Some ''admin'', exp = Some 43300\<rparr>"
      "''ann@example.com''" members "''oid0''" ann 60 shop_product] tok ann r
  show ?thesis by simp
qed

section \<open>Python strings: what the built-ins do\<close>

declare digits_of.simps [simp del]

lemma dropWhile_keeps:
  "x \<in> set xs \<Longrightarrow> \<not> P x \<Longrightarrow> x \<in> set (dropWhile P xs)"
  by (induction xs) auto

lemma strip_with_keeps:
  "x \<in> set s \<Longrightarrow> \<not> sp x \<Longrightarrow> x \<in> set (strip_with sp s)"
  by (simp add: strip_with_def dropWhile_keeps)

lemma strip_with_decompose:
  assumes pre: "list_all sp pre" and post: "list_all sp post"
    and core: "core = [] \<or> (\<not> sp (hd core) \<and> \<not> sp (last core))"
  shows "strip_with sp (pre @ core @ post) = core"
proof (cases "core = []")
  case True
  from pre post have "\<forall>x \<in> set (pre @ post). sp x"
    by (auto simp: list_all_iff)
  then have dw: "dropWhile sp (pre @ post) = []"
    by (simp only: dropWhile_eq_Nil_conv)
  show ?thesis
    by (simp only: strip_with_def True append_Nil dw rev.simps(1) dropWhile.simps(1))
next
  case False
  with core have h: "\<not> sp (hd core)" and l: "\<not> sp (last core)" by simp_all
  from False obtain c cs where c: "core = c # cs" by (cases core) auto
  from pre h c have front: "dropWhile sp (pre @ core @ post) = core @ post"
    by (simp add: list_all_iff dropWhile_append)
  from False l have "dropWhile sp (rev core) = rev core"
    by (simp add: dropWhile_eq_self_iff hd_rev)
  moreover from post have "dropWhile sp (rev post @ rev core) = dropWhile sp (rev core)"
    by (intro dropWhile_append2) (simp add: list_all_iff)
  ultimately have "dropWhile sp (rev post @ rev core) = rev core"
    by simp
  with front show ?thesis by (simp add: strip_with_def)
qed

lemma py_split_not_Nil: "py_split sep s \<noteq> []"
  by (induction s) (auto split: list.split)

lemma py_split_no_sep: "sep \<notin> set a \<Longrightarrow> py_split sep a = [a]"
  by (induction a) auto

lemma py_split_cut:
  "sep \<notin> set a \<Longrightarrow> py_split sep (a @ sep # rest) = a # py_split sep rest"
  by (induction a) (auto split: list.split)

lemma py_split_join:
  "ls \<noteq> [] \<Longrightarrow> list_all (\<lambda>l. sep \<notin> set l) ls \<Longrightarrow> py_split sep (join sep ls) = ls"
  by (induction sep ls rule: join.induct) (simp_all add: py_split_no_sep py_split_cut)

lemma length_py_split: "length (py_split sep l) = Suc (count_list l sep)"
  by (induction l) (auto split: list.split simp: py_split_not_Nil)

lemma py_split_covers:
  "c \<in> set l \<Longrightarrow> c \<noteq> sep \<Longrightarrow> \<exists>p \<in> set (py_split sep l). c \<in> set p"
  by (induction l) (auto split: list.split simp: py_split_not_Nil)

lemma char_of_digit:
  "char_of (48::nat) = CHR ''0''" "char_of (49::nat) = CHR ''1''" "char_of (50::nat) = CHR ''2''"
  "char_of (51::nat) = CHR ''3''" "char_of (52::nat) = CHR ''4''" "char_of (53::nat) = CHR ''5''"
  "char_of (54::nat) = CHR ''6''" "char_of (55::nat) = CHR ''7''" "char_of (56::nat) = CHR ''8''"
  "char_of (57::nat) = CHR ''9''"
  by code_simp+

lemma is_digit_char_of: "d < 10 \<Longrightarrow> is_digit (char_of (48 + d :: nat))"
  by (simp add: is_digit_def)

lemma digit_value_char_of: "d < 10 \<Longrightarrow> of_char (char_of (48 + d :: nat)) - 48 = d"
  by simp

lemma digits_of_digits: "list_all is_digit (digits_of n)"
proof (induction n rule: digits_of.induct)
  case (1 n)
  then show ?case
    by (subst digits_of.simps) (simp add: is_digit_char_of)
qed

lemma digits_of_not_Nil: "digits_of n \<noteq> []"
  by (subst digits_of.simps) simp

lemma foldl_digits_of:
  "foldl (\<lambda>a c. 10 * a + (of_char c - 48)) acc (digits_of n) =
     acc * 10 ^ length (digits_of n) + n"
proof (induction n arbitrary: acc rule: digits_of.induct)
  case (1 n)
  show ?case
  proof (cases "n < 10")
    case True
    then show ?thesis
      by (subst (1 2) digits_of.simps) (simp add: digit_value_char_of)
  next
    case False
    have val: "of_char (char_of (48 + n mod 10 :: nat)) - 48 = n mod 10"
      by (rule digit_value_char_of) simp
    from False have "digits_of n = digits_of (n div 10) @ [char_of (48 + n mod 10)]"
      by (subst digits_of.simps) simp
    with False 1 [of acc] val show ?thesis
      by (simp add: algebra_simps)
  qed
qed

lemma py_digits_all:
  "list_all is_digit ds \<Longrightarrow> ds \<noteq> [] \<or> b \<Longrightarrow>
   py_digits ds b acc = Some (foldl (\<lambda>a c. 10 * a + (of_char c - 48)) acc ds)"
  by (induction ds arbitrary: b acc) auto

lemma py_digits_digits_of: "py_digits (digits_of n) False 0 = Some n"
  by (simp add: py_digits_all digits_of_digits digits_of_not_Nil foldl_digits_of)

lemma py_digits_bad:
  "c \<in> set xs \<Longrightarrow> \<not> is_digit c \<Longrightarrow> c \<noteq> CHR ''_'' \<Longrightarrow> py_digits xs b acc = None"
  by (induction xs arbitrary: b acc) auto


lemma decimal_ends:
  "decimal i \<noteq> []" "\<not> is_int_space (hd (decimal i))" "\<not> is_int_space (last (decimal i))"
  "CHR '','' \<notin> set (decimal i)"
proof -
  have dig: "is_digit c \<Longrightarrow> \<not> is_int_space c \<and> c \<noteq> CHR '',''" for c
    by (auto simp: is_digit_def is_int_space_def)
  have all: "list_all is_digit (digits_of n)" and ne: "digits_of n \<noteq> []" for n
    by (rule digits_of_digits, rule digits_of_not_Nil)
  have hd_dig: "is_digit (hd (digits_of n))" and last_dig: "is_digit (last (digits_of n))" for n
    using all [of n] ne [of n] by (auto simp: list_all_iff)
  show "decimal i \<noteq> []"
    by (simp add: decimal_def ne)
  show "\<not> is_int_space (hd (decimal i))"
    using dig [OF hd_dig] by (simp add: decimal_def is_int_space_def)
  show "\<not> is_int_space (last (decimal i))"
    using dig [OF last_dig] by (simp add: decimal_def ne)
  show "CHR '','' \<notin> set (decimal i)"
    using all dig by (auto simp: decimal_def list_all_iff)
qed

lemma py_int_decimal:
  assumes sp: "list_all is_int_space p" "list_all is_int_space q"
    and len: "length (digits_of (nat \<bar>i\<bar>)) \<le> 4300"
  shows "py_int (p @ decimal i @ q) = Some i"
proof -
  have strip: "strip_with is_int_space (p @ decimal i @ q) = decimal i"
    using sp decimal_ends(2,3) [of i] by (intro strip_with_decompose) simp_all
  have count: "length (filter is_digit (digits_of n)) = length (digits_of n)" for n
    using digits_of_digits [of n] by (simp add: list_all_iff)
  have minus: "\<not> is_digit CHR ''-''"
    by (simp add: is_digit_def)
  let ?rhs = "case decimal i of
        [] \<Rightarrow> None
      | c # cs \<Rightarrow>
          if int_max_str_digits < length (filter is_digit (c # cs)) then None
          else if c = CHR ''-'' then map_option (\<lambda>n. - int n) (py_digits cs False 0)
          else if c = CHR ''+'' then map_option int (py_digits cs False 0)
          else map_option int (py_digits (c # cs) False 0)"
  have unfold: "py_int (p @ decimal i @ q) = ?rhs"
    by (simp only: py_int_def strip)
  have "?rhs = Some i"
  proof (cases "i < 0")
    case True
    then have d: "decimal i = CHR ''-'' # digits_of (nat (- i))" and a: "nat \<bar>i\<bar> = nat (- i)"
      by (simp_all add: decimal_def)
    from len True show ?thesis
      unfolding d
      by (simp add: a count minus int_max_str_digits_def py_digits_digits_of)
  next
    case False
    then have d: "decimal i = digits_of (nat i)" and a: "nat \<bar>i\<bar> = nat i"
      by (simp_all add: decimal_def)
    obtain c cs where cs: "digits_of (nat i) = c # cs"
      using digits_of_not_Nil [of "nat i"] by (cases "digits_of (nat i)") auto
    with digits_of_digits [of "nat i"] have "is_digit c" by simp
    then have c: "c \<noteq> CHR ''-''" "c \<noteq> CHR ''+''"
      by (auto simp: is_digit_def)
    from count [of "nat i"] cs have cnt: "length (filter is_digit (c # cs)) = length (c # cs)"
      by simp
    from py_digits_digits_of [of "nat i"] cs have run: "py_digits (c # cs) False 0 = Some (nat i)"
      by simp
    from len cs have lim: "\<not> int_max_str_digits < length (filter is_digit (c # cs))"
      unfolding cnt by (simp add: a int_max_str_digits_def)
    have "?rhs = map_option int (py_digits (c # cs) False 0)"
      unfolding d cs by (simp only: list.case lim c if_False)
    with run False show ?thesis
      by simp
  qed
  then show ?thesis
    by (simp only: unfold)
qed

lemma py_int_bad:
  assumes c: "c \<in> set s" and nd: "\<not> is_digit c" and ns: "\<not> is_int_space c"
    and other: "c \<noteq> CHR ''_''" "c \<noteq> CHR ''+''" "c \<noteq> CHR ''-''"
  shows "py_int s = None"
proof -
  from c ns have "c \<in> set (strip_with is_int_space s)"
    by (rule strip_with_keeps)
  then show ?thesis
  proof (cases "strip_with is_int_space s")
    case Nil
    then show ?thesis by (simp add: py_int_def)
  next
    case (Cons d ds)
    assume "c \<in> set (strip_with is_int_space s)"
    with Cons have mem: "c = d \<or> c \<in> set ds" by simp
    have tail: "c \<in> set ds \<Longrightarrow> py_digits ds False 0 = None"
      by (rule py_digits_bad [OF _ nd other(1)])
    have whole: "py_digits (d # ds) False 0 = None"
      using nd other(1) mem by (intro py_digits_bad [of c]) auto
    from mem other tail whole show ?thesis
      by (auto simp: py_int_def Cons simp del: py_digits.simps)
  qed
qed

lemma case_three_other:
  "length xs \<noteq> 3 \<Longrightarrow> (case xs of [r, l, x] \<Rightarrow> f r l x | _ \<Rightarrow> None) = None"
  by (auto split: list.split)

lemma parse_line_commas:
  "count_list l (CHR '','') \<noteq> 2 \<Longrightarrow> parse_line l = None"
proof -
  assume "count_list l (CHR '','') \<noteq> 2"
  then have "length (py_split (CHR '','') l) \<noteq> 3"
    by (simp add: length_py_split)
  then show ?thesis
    unfolding parse_line_def by (rule case_three_other)
qed

lemma parse_line_bad_char:
  assumes c: "c \<in> set l"
    and bad: "of_char c \<notin> ({9, 10, 11, 12, 13, 32, 133, 160} \<union> {48..57} \<union> {43, 44, 45, 95} :: nat set)"
  shows "parse_line l = None"
proof -
  from bad have nd: "\<not> is_digit c" and ns: "\<not> is_int_space c"
    by (auto simp: is_digit_def is_int_space_def)
  from bad have other: "c \<noteq> CHR ''_''" "c \<noteq> CHR ''+''" "c \<noteq> CHR ''-''" "c \<noteq> CHR '',''"
    by auto
  from py_split_covers [OF c other(4)] obtain p
    where p: "p \<in> set (py_split (CHR '','') l)" and cp: "c \<in> set p" by blast
  from cp nd ns other(1-3) have none: "py_int p = None"
    by (rule py_int_bad)
  show ?thesis
  proof (cases "length (py_split (CHR '','') l) = 3")
    case False
    then show ?thesis
      unfolding parse_line_def by (rule case_three_other)
  next
    case True
    then obtain r m x where parts: "py_split (CHR '','') l = [r, m, x]"
      by (auto simp: length_Suc_conv numeral_3_eq_3)
    with p none have "py_int r = None \<or> py_int m = None \<or> py_int x = None"
      by auto
    with parts show ?thesis
      by (auto simp: parse_line_def split: option.split)
  qed
qed

lemma parse_line_decimal:
  assumes sp: "list_all is_int_space (pa @ qa @ pb @ qb @ pc @ qc)"
    and len: "length (digits_of (nat \<bar>a\<bar>)) \<le> 4300" "length (digits_of (nat \<bar>b\<bar>)) \<le> 4300"
      "length (digits_of (nat \<bar>c\<bar>)) \<le> 4300"
  shows "parse_line (pa @ decimal a @ qa @ CHR '','' # pb @ decimal b @ qb @ CHR '','' # pc @ decimal c @ qc)
         = Some \<lparr>rank = a, level = b, xp = c\<rparr>"
proof -
  have nc: "list_all is_int_space p \<Longrightarrow> CHR '','' \<notin> set p" for p
    by (auto simp: list_all_iff is_int_space_def)
  from sp have each: "list_all is_int_space pa" "list_all is_int_space qa" "list_all is_int_space pb"
    "list_all is_int_space qb" "list_all is_int_space pc" "list_all is_int_space qc"
    by simp_all
  have free: "CHR '','' \<notin> set (pa @ decimal a @ qa)" "CHR '','' \<notin> set (pb @ decimal b @ qb)"
    "CHR '','' \<notin> set (pc @ decimal c @ qc)"
    using each [THEN nc] decimal_ends(4) by simp_all
  have "py_split (CHR '','')
          ((pa @ decimal a @ qa) @ CHR '','' # (pb @ decimal b @ qb) @ CHR '','' # (pc @ decimal c @ qc))
        = [pa @ decimal a @ qa, pb @ decimal b @ qb, pc @ decimal c @ qc]"
    by (simp only: py_split_cut [OF free(1)] py_split_cut [OF free(2)] py_split_no_sep [OF free(3)])
  then have parts: "py_split (CHR '','')
          (pa @ decimal a @ qa @ CHR '','' # pb @ decimal b @ qb @ CHR '','' # pc @ decimal c @ qc)
        = [pa @ decimal a @ qa, pb @ decimal b @ qb, pc @ decimal c @ qc]"
    by simp
  show ?thesis
    unfolding parse_line_def parts
    by (simp add: py_int_decimal each len)
qed

lemma py_int_too_long:
  assumes "4300 < length (digits_of n)"
  shows "py_int (digits_of n) = None"
proof -
  obtain c cs where cs: "digits_of n = c # cs"
    using digits_of_not_Nil [of n] by (cases "digits_of n") auto
  have all: "list_all is_digit (digits_of n)"
    by (rule digits_of_digits)
  have "decimal (int n) = digits_of n"
    by (simp add: decimal_def)
  with decimal_ends(2,3) [of "int n"]
  have "\<not> is_int_space (hd (digits_of n))" "\<not> is_int_space (last (digits_of n))"
    by simp_all
  then have "strip_with is_int_space ([] @ digits_of n @ []) = digits_of n"
    by (intro strip_with_decompose) simp_all
  then have strip: "strip_with is_int_space (digits_of n) = c # cs"
    by (simp add: cs)
  from all have "length (filter is_digit (digits_of n)) = length (digits_of n)"
    by (simp add: list_all_iff)
  with assms cs have "int_max_str_digits < length (filter is_digit (c # cs))"
    by (simp add: int_max_str_digits_def)
  then show ?thesis
    by (simp only: py_int_def strip list.case if_True)
qed

lemma parse_line_too_long:
  assumes "4300 < length (digits_of n)"
  shows "parse_line (digits_of n @ CHR '','' # rest) = None"
proof -
  have "CHR '','' \<notin> set (digits_of n)"
    using digits_of_digits [of n] by (auto simp: list_all_iff is_digit_def)
  then have parts: "py_split (CHR '','') (digits_of n @ CHR '','' # rest) =
      digits_of n # py_split (CHR '','') rest"
    by (rule py_split_cut)
  show ?thesis
    unfolding parse_line_def parts
    by (simp add: py_int_too_long [OF assms] split: list.split)
qed

lemma length_digits_of_power: "length (digits_of (10 ^ k)) = Suc k"
proof (induction k)
  case 0
  show ?case by (subst digits_of.simps) simp
next
  case (Suc k)
  have "\<not> (10::nat) ^ Suc k < 10"
    by simp
  then have "digits_of (10 ^ Suc k) =
      digits_of (10 ^ Suc k div 10) @ [char_of (48 + (10::nat) ^ Suc k mod 10)]"
    by (subst digits_of.simps) (simp only: if_False)
  with Suc show ?case by simp
qed

section \<open>Properties of the hiscore lookup\<close>

lemma length_parse_skills_from:
  "length (parse_skills_from lines k names) = length names"
  by (induction names arbitrary: k) simp_all

lemma map_fst_parse_skills_from:
  "map fst (parse_skills_from lines k names) = names"
  by (induction names arbitrary: k) simp_all

lemma parse_skills_from_nth:
  "i < length names \<Longrightarrow>
   parse_skills_from lines k names ! i = (names ! i, parse_skill lines (k + i))"
proof (induction names arbitrary: k i)
  case Nil
  then show ?case by simp
next
  case (Cons n names)
  then show ?case by (cases i) simp_all
qed

lemma length_skill_names: "length skill_names = 24"
  by (simp add: skill_names_def)

lemma parse_skills_nth:
  "i < 24 \<Longrightarrow> parse_skills lines ! i = (skill_names ! i, parse_skill lines i)"
  by (simp add: parse_skills_def parse_skills_from_nth length_skill_names)

lemma log_search_searchlog:
  "searchlog (log_search s e) = (if available s then searchlog s @ [e] else searchlog s)"
  by (simp add: log_search_def create_searchlog_def)

lemma py_strip_decompose:
  "list_all is_space pre \<Longrightarrow> list_all is_space post \<Longrightarrow>
   core = [] \<or> (\<not> is_space (hd core) \<and> \<not> is_space (last core)) \<Longrightarrow>
   py_strip (pre @ core @ post) = core"
  unfolding py_strip_def by (rule strip_with_decompose)

text \<open>
  C8, as the code has it. The user name is white space (the code points 9 to 13, 28 to 31,
  32, 133, 160) around a core that neither starts nor ends with white space.
  \<^verbatim>\<open>get_osrs_stats\<close> adds one search-log entry, for the core, when the hiscores were fetched
  (flag true) and when fetching failed other than by a 404 (flag false, with the text of
  the failure as note), provided the store takes the entry; a blank user name (400) and a
  player not found (404) add none, nor does a store that is not available. The answer is
  the parsed feed, or the exception 400, 404 or 500.
\<close>

theorem get_osrs_stats_log:
  fixes space :: "char \<Rightarrow> bool"
  defines "space \<equiv> \<lambda>c. of_char c \<in> {9, 10, 11, 12, 13, 28, 29, 30, 31, 32, 133, 160 :: nat}"
  assumes "list_all space pre" and "list_all space post"
    and "core = [] \<or> (\<not> space (hd core) \<and> \<not> space (last core))"
  shows "searchlog (snd (get_osrs_stats quote requests_get s (pre @ core @ post))) =
     (if core = [] then searchlog s
      else if not_found (requests_get (osrs_url @ quote core)) then searchlog s
      else if available s then
        searchlog s @
          [\<lparr>sl_game = ''osrs'', query = [(''username'', core)],
            result_ok = fetched_ok (requests_get (osrs_url @ quote core)),
            sl_note = (if fetched_ok (requests_get (osrs_url @ quote core)) then None
                       else Some (failure_note (requests_get (osrs_url @ quote core))))\<rparr>]
      else searchlog s)
   \<and> fst (get_osrs_stats quote requests_get s (pre @ core @ post)) =
       (if core = [] then Inl (HTTPException 400 ''Username required'')
        else if not_found (requests_get (osrs_url @ quote core))
        then Inl (HTTPException 404 ''Player not found'')
        else if fetched_ok (requests_get (osrs_url @ quote core))
        then Inr \<lparr>osrs_game = ''osrs'', username = core,
                  skills = parse_skills (py_split (CHR 0x0A)
                    (py_strip (response_text (requests_get (osrs_url @ quote core)))))\<rparr>
        else Inl (HTTPException 500 ''Failed to fetch OSRS stats''))"
proof -
  have "space = is_space"
    by (simp add: space_def is_space_def fun_eq_iff)
  with assms(2-4) have strip: "py_strip (pre @ core @ post) = core"
    by (intro py_strip_decompose) simp_all
  show ?thesis
    by (cases "requests_get (osrs_url @ quote core)")
       (simp_all add: get_osrs_stats_def strip Let_def log_search_searchlog not_found_def
          fetched_ok_def failure_note_def response_text_def)
qed

text \<open>
  A blank user name made of a no-break space and a space; a user name with white space
  around it looked up on a server that cannot be reached, and on one that answers.
\<close>

theorem get_osrs_stats_log_witness:
  "get_osrs_stats id hiscores_down log_store [CHR 0xA0, CHR '' ''] =
     (Inl (HTTPException 400 ''Username required''), log_store)
   \<and> get_osrs_stats id hiscores_down log_store ('' zezima'' @ [CHR 0x85]) =
     (Inl (HTTPException 500 ''Failed to fetch OSRS stats''),
      log_store\<lparr>searchlog :=
        [\<lparr>sl_game = ''osrs'', query = [(''username'', ''zezima'')], result_ok = False,
          sl_note = Some ''timed out''\<rparr>]\<rparr>)
   \<and> searchlog (snd (get_osrs_stats id hiscores_feed log_store ('' zezima'' @ [CHR 0x85]))) =
       [\<lparr>sl_game = ''osrs'', query = [(''username'', ''zezima'')], result_ok = True,
         sl_note = None\<rparr>]"
proof -
  have down: "not_found (hiscores_down u) = False" "fetched_ok (hiscores_down u) = False"
    "failure_note (hiscores_down u) = ''timed out''" for u
    by (simp_all add: hiscores_down_def not_found_def fetched_ok_def failure_note_def)
  have up: "not_found (hiscores_feed u) = False" "fetched_ok (hiscores_feed u) = True" for u
    by (simp_all add: hiscores_feed_def not_found_def fetched_ok_def)
  have st: "searchlog log_store = []" "available log_store"
    by (simp_all add: log_store_def)
  have rest: "snd (get_osrs_stats q g log_store u) =
      log_store\<lparr>searchlog := searchlog (snd (get_osrs_stats q g log_store u))\<rparr>" for q g u
    by (simp add: get_osrs_stats_def log_search_def create_searchlog_def log_store_def Let_def
        split: get_outcome.split)
  from get_osrs_stats_log [of "[CHR 0xA0, CHR '' '']" "[]" "[]" id hiscores_down log_store]
    rest [of id hiscores_down "[CHR 0xA0, CHR '' '']"]
  have blank: "get_osrs_stats id hiscores_down log_store [CHR 0xA0, CHR '' ''] =
     (Inl (HTTPException 400 ''Username required''), log_store)"
    by (simp add: st prod_eq_iff log_store_def)
  from get_osrs_stats_log [of "'' ''" "[CHR 0x85]" "''zezima''" id hiscores_down log_store]
    rest [of id hiscores_down "'' zezima'' @ [CHR 0x85]"]
  have failed: "get_osrs_stats id hiscores_down log_store ('' zezima'' @ [CHR 0x85]) =
     (Inl (HTTPException 500 ''Failed to fetch OSRS stats''),
      log_store\<lparr>searchlog :=
        [\<lparr>sl_game = ''osrs'', query = [(''username'', ''zezima'')], result_ok = False,
          sl_note = Some ''timed out''\<rparr>]\<rparr>)"
    by (simp add: down st prod_eq_iff)
  from get_osrs_stats_log [of "'' ''" "[CHR 0x85]" "''zezima''" id hiscores_feed log_store]
  have fetched: "searchlog (snd (get_osrs_stats id hiscores_feed log_store ('' zezima'' @ [CHR 0x85]))) =
       [\<lparr>sl_game = ''osrs'', query = [(''username'', ''zezima'')], result_ok = True,
         sl_note = None\<rparr>]"
    by (simp add: up st)
  from blank failed fetched show ?thesis by simp
qed

text \<open>
  The claim as the spec states it fails: a lookup of a player the hiscore server does not
  know raises 404 and leaves the search log empty.
\<close>

theorem get_osrs_stats_not_found_unlogged:
  "get_osrs_stats id hiscores_unknown log_store ''zezima'' =
     (Inl (HTTPException 404 ''Player not found''), log_store)
   \<and> searchlog (snd (get_osrs_stats id hiscores_unknown log_store ''zezima'')) = []"
  by (simp add: get_osrs_stats_def hiscores_unknown_def log_store_def py_strip_def strip_with_def
      is_space_def Let_def)

text \<open>
  C9. The parse gives the twenty-four skills in order, whatever the lines are. The entry
  of skill \<open>i\<close> is read from line \<open>i\<close> alone: it is \<open>{rank: -1, level: 1, xp: 0}\<close> when that
  line is missing or malformed (\<^verbatim>\<open>parse_line\<close> raises) and the parsed triple otherwise.
  Replacing line \<open>i\<close> by a malformed one gives skill \<open>i\<close> that default and leaves every
  other skill's entry as it was. What is well formed and what is not: three numbers in
  decimal notation of at most 4300 digits each, separated by commas, each with white
  space as \<^verbatim>\<open>int\<close> accepts it (the code points 9 to 13, 32, 133, 160) around it, parse to
  these numbers; a line that does not have exactly two commas is malformed, and so is a
  line with a character that is neither a digit, a sign, an underscore, a comma nor such
  white space, and a line that starts with a number of more than 4300 digits. A feed that was fetched is always answered with the parse of its lines:
  the text between the white space around it, cut at the line feeds.
\<close>

theorem parse_skills_line_by_line:
  fixes space int_space :: "char \<Rightarrow> bool"
  defines "space \<equiv> \<lambda>c. of_char c \<in> {9, 10, 11, 12, 13, 28, 29, 30, 31, 32, 133, 160 :: nat}"
    and "int_space \<equiv> \<lambda>c. of_char c \<in> {9, 10, 11, 12, 13, 32, 133, 160 :: nat}"
  shows "length (parse_skills lines) = 24
   \<and> map fst (parse_skills lines) =
       [''Overall'', ''Attack'', ''Defence'', ''Strength'', ''Hitpoints'', ''Ranged'', ''Prayer'',
        ''Magic'', ''Cooking'', ''Woodcutting'', ''Fletching'', ''Fishing'', ''Firemaking'',
        ''Crafting'', ''Smithing'', ''Mining'', ''Herblore'', ''Agility'', ''Thieving'', ''Slayer'',
        ''Farming'', ''Runecraft'', ''Hunter'', ''Construction'']
   \<and> (i < 24 \<longrightarrow>
        snd (parse_skills lines ! i) =
          (if i < length lines
           then (case parse_line (lines ! i) of
                   None \<Rightarrow> \<lparr>rank = - 1, level = 1, xp = 0\<rparr>
                 | Some e \<Rightarrow> e)
           else \<lparr>rank = - 1, level = 1, xp = 0\<rparr>))
   \<and> (i < 24 \<and> i < length lines \<and> parse_line bad = None \<longrightarrow>
        snd (parse_skills (lines[i := bad]) ! i) = \<lparr>rank = - 1, level = 1, xp = 0\<rparr>)
   \<and> (j < 24 \<and> j \<noteq> i \<longrightarrow> parse_skills (lines[i := bad]) ! j = parse_skills lines ! j)
   \<and> (list_all int_space (pa @ qa @ pb @ qb @ pc @ qc)
        \<and> length (digits_of (nat \<bar>a\<bar>)) \<le> 4300 \<and> length (digits_of (nat \<bar>b\<bar>)) \<le> 4300
        \<and> length (digits_of (nat \<bar>c\<bar>)) \<le> 4300 \<longrightarrow>
        parse_line (pa @ decimal a @ qa @ CHR '','' # pb @ decimal b @ qb @ CHR '','' #
                    pc @ decimal c @ qc)
          = Some \<lparr>rank = a, level = b, xp = c\<rparr>)
   \<and> (count_list l (CHR '','') \<noteq> 2 \<longrightarrow> parse_line l = None)
   \<and> (ch \<in> set l'
        \<and> of_char ch \<notin> ({9, 10, 11, 12, 13, 32, 133, 160} \<union> {48..57} \<union> {43, 44, 45, 95} :: nat set)
        \<longrightarrow> parse_line l' = None)
   \<and> (4300 < length (digits_of n) \<longrightarrow> parse_line (digits_of n @ CHR '','' # rest) = None)
   \<and> (list_all space (upre @ upost @ bpre @ bpost)
        \<and> ucore \<noteq> [] \<and> \<not> space (hd ucore) \<and> \<not> space (last ucore)
        \<and> ls \<noteq> [] \<and> list_all (\<lambda>l. CHR 0x0A \<notin> set l) ls
        \<and> (join (CHR 0x0A) ls = []
             \<or> (\<not> space (hd (join (CHR 0x0A) ls)) \<and> \<not> space (last (join (CHR 0x0A) ls))))
        \<and> requests_get (osrs_url @ quote ucore) =
             GetResponse st (bpre @ join (CHR 0x0A) ls @ bpost) err
        \<and> st \<noteq> 404 \<and> \<not> (400 \<le> st \<and> st < 600) \<longrightarrow>
        fst (get_osrs_stats quote requests_get s (upre @ ucore @ upost)) =
          Inr \<lparr>osrs_game = ''osrs'', username = ucore, skills = parse_skills ls\<rparr>)"
proof -
  have sp: "space = is_space"
    by (simp add: space_def is_space_def fun_eq_iff)
  have isp: "int_space = is_int_space"
    by (simp add: int_space_def is_int_space_def fun_eq_iff)
  have len: "length (parse_skills lines) = 24"
    by (simp add: parse_skills_def length_parse_skills_from length_skill_names)
  have names: "map fst (parse_skills lines) =
       [''Overall'', ''Attack'', ''Defence'', ''Strength'', ''Hitpoints'', ''Ranged'', ''Prayer'',
        ''Magic'', ''Cooking'', ''Woodcutting'', ''Fletching'', ''Fishing'', ''Firemaking'',
        ''Crafting'', ''Smithing'', ''Mining'', ''Herblore'', ''Agility'', ''Thieving'', ''Slayer'',
        ''Farming'', ''Runecraft'', ''Hunter'', ''Construction'']"
    by (simp only: parse_skills_def map_fst_parse_skills_from skill_names_def)
  have own: "i < 24 \<longrightarrow>
        snd (parse_skills lines ! i) =
          (if i < length lines
           then (case parse_line (lines ! i) of
                   None \<Rightarrow> \<lparr>rank = - 1, level = 1, xp = 0\<rparr>
                 | Some e \<Rightarrow> e)
           else \<lparr>rank = - 1, level = 1, xp = 0\<rparr>)"
    by (simp add: parse_skills_nth parse_skill_def default_entry_def split: option.split)
  have bad: "i < 24 \<and> i < length lines \<and> parse_line bad = None \<longrightarrow>
        snd (parse_skills (lines[i := bad]) ! i) = \<lparr>rank = - 1, level = 1, xp = 0\<rparr>"
    by (simp add: parse_skills_nth parse_skill_def default_entry_def)
  have others: "j < 24 \<and> j \<noteq> i \<longrightarrow>
        parse_skills (lines[i := bad]) ! j = parse_skills lines ! j"
    by (simp add: parse_skills_nth parse_skill_def)
  have well: "list_all int_space (pa @ qa @ pb @ qb @ pc @ qc)
        \<and> length (digits_of (nat \<bar>a\<bar>)) \<le> 4300 \<and> length (digits_of (nat \<bar>b\<bar>)) \<le> 4300
        \<and> length (digits_of (nat \<bar>c\<bar>)) \<le> 4300 \<longrightarrow>
        parse_line (pa @ decimal a @ qa @ CHR '','' # pb @ decimal b @ qb @ CHR '','' #
                    pc @ decimal c @ qc)
          = Some \<lparr>rank = a, level = b, xp = c\<rparr>"
    unfolding isp using parse_line_decimal [of pa qa pb qb pc qc a b c] by blast
  have commas: "count_list l (CHR '','') \<noteq> 2 \<longrightarrow> parse_line l = None"
    using parse_line_commas by blast
  have char: "ch \<in> set l'
        \<and> of_char ch \<notin> ({9, 10, 11, 12, 13, 32, 133, 160} \<union> {48..57} \<union> {43, 44, 45, 95} :: nat set)
        \<longrightarrow> parse_line l' = None"
    using parse_line_bad_char [of ch l'] by blast
  have long: "4300 < length (digits_of n) \<longrightarrow> parse_line (digits_of n @ CHR '','' # rest) = None"
    using parse_line_too_long by blast
  have endpoint: "list_all space (upre @ upost @ bpre @ bpost)
        \<and> ucore \<noteq> [] \<and> \<not> space (hd ucore) \<and> \<not> space (last ucore)
        \<and> ls \<noteq> [] \<and> list_all (\<lambda>l. CHR 0x0A \<notin> set l) ls
        \<and> (join (CHR 0x0A) ls = []
             \<or> (\<not> space (hd (join (CHR 0x0A) ls)) \<and> \<not> space (last (join (CHR 0x0A) ls))))
        \<and> requests_get (osrs_url @ quote ucore) =
             GetResponse st (bpre @ join (CHR 0x0A) ls @ bpost) err
        \<and> st \<noteq> 404 \<and> \<not> (400 \<le> st \<and> st < 600) \<longrightarrow>
        fst (get_osrs_stats quote requests_get s (upre @ ucore @ upost)) =
          Inr \<lparr>osrs_game = ''osrs'', username = ucore, skills = parse_skills ls\<rparr>"
  proof (intro impI, elim conjE)
    assume ws: "list_all space (upre @ upost @ bpre @ bpost)"
      and u: "ucore \<noteq> []" "\<not> space (hd ucore)" "\<not> space (last ucore)"
      and l: "ls \<noteq> []" "list_all (\<lambda>l. CHR 0x0A \<notin> set l) ls"
      and b: "join (CHR 0x0A) ls = []
             \<or> (\<not> space (hd (join (CHR 0x0A) ls)) \<and> \<not> space (last (join (CHR 0x0A) ls)))"
      and r: "requests_get (osrs_url @ quote ucore) =
             GetResponse st (bpre @ join (CHR 0x0A) ls @ bpost) err"
      and s: "st \<noteq> 404" "\<not> (400 \<le> st \<and> st < 600)"
    from ws u have who: "py_strip (upre @ ucore @ upost) = ucore"
      unfolding sp by (intro py_strip_decompose) simp_all
    from ws b have body: "py_strip (bpre @ join (CHR 0x0A) ls @ bpost) = join (CHR 0x0A) ls"
      unfolding sp by (intro py_strip_decompose) simp_all
    from l have cut: "py_split (CHR 0x0A) (join (CHR 0x0A) ls) = ls"
      by (rule py_split_join)
    from u(1) r s show "fst (get_osrs_stats quote requests_get s (upre @ ucore @ upost)) =
          Inr \<lparr>osrs_game = ''osrs'', username = ucore, skills = parse_skills ls\<rparr>"
      by (simp add: get_osrs_stats_def who body cut Let_def)
  qed
  from len names own bad others well commas char long endpoint show ?thesis
    by blast
qed

text \<open>
  A line of the feed with a carriage return after it, the line of an unranked skill, a
  feed whose second line is \<open>n/a\<close>, and a few more lines and numbers.
\<close>

theorem parse_skills_line_by_line_witness:
  "parse_line (''200,99,13034431'' @ [CHR 0x0D]) = Some \<lparr>rank = 200, level = 99, xp = 13034431\<rparr>
   \<and> parse_line ''-1,-1,-1'' = Some \<lparr>rank = - 1, level = - 1, xp = - 1\<rparr>
   \<and> parse_line ''1,2'' = None
   \<and> parse_line ''n/a'' = None
   \<and> snd (parse_skills feed ! 1) = \<lparr>rank = 200, level = 99, xp = 13034431\<rparr>
   \<and> snd (parse_skills (feed[1 := ''n/a'']) ! 1) = \<lparr>rank = - 1, level = 1, xp = 0\<rparr>
   \<and> parse_skills (feed[1 := ''n/a'']) ! 2 = parse_skills feed ! 2
   \<and> fst (get_osrs_stats id hiscores_feed log_store ('' zezima'' @ [CHR 0xA0])) =
       Inr \<lparr>osrs_game = ''osrs'', username = ''zezima'',
            skills = parse_skills (feed[1 := ''n/a''])\<rparr>
   \<and> py_int [CHR 0x1C, CHR ''5''] = None
   \<and> py_int [CHR 0xA0, CHR ''5''] = Some 5
   \<and> py_int ''1_000'' = Some 1000
   \<and> py_int ''+7'' = Some 7
   \<and> parse_line ''1,,2'' = None
   \<and> parse_line (digits_of (10 ^ 4300) @ '',1,1'') = None"
proof -
  have huge: "parse_line (digits_of (10 ^ 4300) @ '',1,1'') = None"
    using parse_skills_line_by_line [where n = "10 ^ 4300" and rest = "''1,1''"]
    by (simp only: length_digits_of_power)
  have dec: "decimal 200 = ''200''" "decimal 99 = ''99''" "decimal 13034431 = ''13034431''"
    "decimal (- 1) = ''-1''"
    by (simp_all add: decimal_def digits_of.simps char_of_digit)
  have digs: "length (digits_of (nat \<bar>200\<bar>)) \<le> 4300" "length (digits_of (nat \<bar>99\<bar>)) \<le> 4300"
    "length (digits_of (nat \<bar>13034431\<bar>)) \<le> 4300" "length (digits_of (nat \<bar>- 1\<bar>)) \<le> 4300"
    by (simp_all add: digits_of.simps)
  have ranked: "parse_line (''200,99,13034431'' @ [CHR 0x0D]) =
      Some \<lparr>rank = 200, level = 99, xp = 13034431\<rparr>"
    using parse_skills_line_by_line [where pa = "[]" and qa = "[]" and pb = "[]" and qb = "[]"
        and pc = "[]" and qc = "[CHR 0x0D]" and a = 200 and b = 99 and c = 13034431] digs
    by (simp add: dec)
  have plain: "parse_line ''200,99,13034431'' = Some \<lparr>rank = 200, level = 99, xp = 13034431\<rparr>"
    using parse_skills_line_by_line [where pa = "[]" and qa = "[]" and pb = "[]" and qb = "[]"
        and pc = "[]" and qc = "[]" and a = 200 and b = 99 and c = 13034431] digs
    by (simp add: dec)
  have unranked: "parse_line ''-1,-1,-1'' = Some \<lparr>rank = - 1, level = - 1, xp = - 1\<rparr>"
    using parse_skills_line_by_line [where pa = "[]" and qa = "[]" and pb = "[]" and qb = "[]"
        and pc = "[]" and qc = "[]" and a = "- 1" and b = "- 1" and c = "- 1"] digs
    by (simp add: dec)
  have short: "parse_line ''1,2'' = None"
    using parse_skills_line_by_line [where l = "''1,2''"] by simp
  have na: "parse_line ''n/a'' = None"
    using parse_skills_line_by_line [where l' = "''n/a''" and ch = "CHR ''n''"] by simp
  have l1: "feed ! 1 = ''200,99,13034431''" "(1::nat) < length feed"
    by (simp_all add: feed_def)
  have second: "snd (parse_skills feed ! 1) = \<lparr>rank = 200, level = 99, xp = 13034431\<rparr>"
    using parse_skills_line_by_line [where lines = feed and i = 1] l1 plain by simp
  have replaced: "snd (parse_skills (feed[1 := ''n/a'']) ! 1) = \<lparr>rank = - 1, level = 1, xp = 0\<rparr>"
    using parse_skills_line_by_line [where lines = feed and i = 1 and bad = "''n/a''"] l1 na
    by simp
  have third: "parse_skills (feed[1 := ''n/a'']) ! 2 = parse_skills feed ! 2"
    using parse_skills_line_by_line [where lines = feed and i = 1 and bad = "''n/a''" and j = 2]
    by simp
  have reply: "hiscores_feed (osrs_url @ id ''zezima'') =
      GetResponse 200 ([] @ join (CHR 0x0A) (feed[1 := ''n/a'']) @ [CHR 0x0A]) []"
    by (simp add: hiscores_feed_def feed_text_def)
  have answer: "fst (get_osrs_stats id hiscores_feed log_store ('' zezima'' @ [CHR 0xA0])) =
       Inr \<lparr>osrs_game = ''osrs'', username = ''zezima'',
            skills = parse_skills (feed[1 := ''n/a''])\<rparr>"
    using parse_skills_line_by_line [where upre = "'' ''" and ucore = "''zezima''"
        and upost = "[CHR 0xA0]" and bpre = "[]" and bpost = "[CHR 0x0A]"
        and ls = "feed[1 := ''n/a'']" and requests_get = hiscores_feed and quote = id
        and st = 200 and err = "[]" and s = log_store] reply
    by (simp add: feed_def)
  have pins: "py_int [CHR 0x1C, CHR ''5''] = None" "py_int [CHR 0xA0, CHR ''5''] = Some 5"
    "py_int ''1_000'' = Some 1000" "py_int ''+7'' = Some 7" "parse_line ''1,,2'' = None"
    by (simp_all add: parse_line_def py_int_def strip_with_def is_int_space_def is_digit_def
        int_max_str_digits_def)
  from ranked unranked short na second replaced third answer pins huge show ?thesis
    by (simp del: power_numeral)
qed


end
